theory Spec2Isabelle
  imports Main "HOL-Library.Sublist"
begin

section \<open>The Azure DevOps downloader of \<^verbatim>\<open>api/git/azure.go\<close>\<close>

subsection \<open>Go strings\<close>

text \<open>
  A Go \<^verbatim>\<open>string\<close> is a sequence of bytes, which is what \<^typ>\<open>string\<close> is here.
  The functions of package \<^verbatim>\<open>strings\<close> that the source calls are written out.
\<close>

definition HasPrefix :: "string \<Rightarrow> string \<Rightarrow> bool" where
  "HasPrefix s p = (take (length p) s = p)"

definition TrimPrefix :: "string \<Rightarrow> string \<Rightarrow> string" where
  "TrimPrefix s p = (if HasPrefix s p then drop (length p) s else s)"

definition HasSuffix :: "string \<Rightarrow> string \<Rightarrow> bool" where
  "HasSuffix s x = (length x \<le> length s \<and> drop (length s - length x) s = x)"

definition TrimSuffix :: "string \<Rightarrow> string \<Rightarrow> string" where
  "TrimSuffix s x = (if HasSuffix s x then take (length s - length x) s else s)"

text \<open>\<^verbatim>\<open>strings.Contains(s, substr)\<close>: \<open>substr\<close> starts at some position of \<open>s\<close>.\<close>

fun Contains :: "string \<Rightarrow> string \<Rightarrow> bool" where
  "Contains [] sub = (sub = [])"
| "Contains (c # cs) sub = (HasPrefix (c # cs) sub \<or> Contains cs sub)"

text \<open>
  \<^verbatim>\<open>strings.Split(s, sep)\<close> for a separator of one byte, the only use the source makes of
  it (\<^verbatim>\<open>"/"\<close>): one more piece than there are separators, the empty string gives one
  empty piece. \<open>cur\<close> holds the piece being read, reversed.
\<close>

fun Split_from :: "char \<Rightarrow> string \<Rightarrow> string \<Rightarrow> string list" where
  "Split_from sep cur [] = [rev cur]"
| "Split_from sep cur (c # cs) =
     (if c = sep then rev cur # Split_from sep [] cs else Split_from sep (c # cur) cs)"

definition Split :: "string \<Rightarrow> char \<Rightarrow> string list" where
  "Split s sep = Split_from sep [] s"

text \<open>
  \<^verbatim>\<open>string([]rune(s))\<close>: the bytes are decoded as UTF-8 and encoded again. A well-formed
  sequence comes back as it is; every byte that starts no well-formed sequence becomes
  U+FFFD (the bytes EF BF BD) and decoding goes on at the next byte.
  \<open>utf8_need b\<close> is the number of continuation bytes after the first byte \<open>b\<close> together
  with the range allowed for the first of them (Go's \<^verbatim>\<open>acceptRanges\<close>); \<open>None\<close> for a
  byte that starts nothing.
\<close>

definition utf8_need :: "nat \<Rightarrow> (nat \<times> nat \<times> nat) option" where
  "utf8_need b =
     (if 0xC2 \<le> b \<and> b \<le> 0xDF then Some (1, 0x80, 0xBF)
      else if b = 0xE0 then Some (2, 0xA0, 0xBF)
      else if b = 0xED then Some (2, 0x80, 0x9F)
      else if 0xE1 \<le> b \<and> b \<le> 0xEF then Some (2, 0x80, 0xBF)
      else if b = 0xF0 then Some (3, 0x90, 0xBF)
      else if 0xF1 \<le> b \<and> b \<le> 0xF3 then Some (3, 0x80, 0xBF)
      else if b = 0xF4 then Some (3, 0x80, 0x8F)
      else None)"

definition utf8_cont :: "char \<Rightarrow> bool" where
  "utf8_cont c = (0x80 \<le> (of_char c :: nat) \<and> (of_char c :: nat) \<le> 0xBF)"

definition RuneError :: string where
  "RuneError = [char_of (0xEF :: nat), char_of (0xBF :: nat), char_of (0xBD :: nat)]"

fun runes_string :: "string \<Rightarrow> string" where
  "runes_string [] = []"
| "runes_string (c # cs) =
     (if (of_char c :: nat) < 0x80 then c # runes_string cs
      else (case utf8_need (of_char c) of
              None \<Rightarrow> RuneError @ runes_string cs
            | Some (n, lo, hi) \<Rightarrow>
                if n \<le> length cs \<and> lo \<le> (of_char (hd cs) :: nat) \<and> (of_char (hd cs) :: nat) \<le> hi
                   \<and> list_all utf8_cont (take (n - 1) (tl cs))
                then c # take n cs @ runes_string (drop n cs)
                else RuneError @ runes_string cs))"

subsection \<open>Provider dispatch\<close>

definition azureDevOpsHost :: string where
  "azureDevOpsHost = ''dev.azure.com''"

definition visualStudioHostSuffix :: string where
  "visualStudioHostSuffix = ''.visualstudio.com''"

definition isAzureUrl :: "string \<Rightarrow> bool" where
  "isAzureUrl s = (Contains s azureDevOpsHost \<or> Contains s visualStudioHostSuffix)"

subsection \<open>Reference names\<close>

definition branchPrefix :: string where
  "branchPrefix = ''refs/heads/''"

definition tagPrefix :: string where
  "tagPrefix = ''refs/tags/''"

definition formatReferenceName :: "string \<Rightarrow> string" where
  "formatReferenceName name =
     (if HasPrefix name branchPrefix then TrimPrefix name branchPrefix
      else if HasPrefix name tagPrefix then TrimPrefix name tagPrefix
      else name)"

definition getVersionType :: "string \<Rightarrow> string" where
  "getVersionType name =
     (if HasPrefix name branchPrefix then ''branch''
      else if HasPrefix name tagPrefix then ''tag''
      else ''commit'')"

subsection \<open>Data\<close>

text \<open>The repository locator \<^verbatim>\<open>azureOptions\<close> and the two decoded response items.\<close>

record azureOptions =
  organisation :: string
  project :: string
  repository :: string
  username :: string
  password :: string

record azureRef =
  Name :: string
  ref_ObjectID :: string

record azureItem =
  ObjectID :: string
  CommitId :: string
  item_Path :: string

text \<open>
  \<^verbatim>\<open>cloneOptions\<close> and \<^verbatim>\<open>fetchOptions\<close> are declared in another file of the package; these
  are the fields that \<^verbatim>\<open>azure.go\<close> reads, prefixed since the three option records share
  field names.
\<close>

record cloneOptions =
  clone_repositoryUrl :: string
  clone_username :: string
  clone_password :: string
  clone_referenceName :: string

record fetchOptions =
  fetch_repositoryUrl :: string
  fetch_username :: string
  fetch_password :: string
  fetch_referenceName :: string
  extensions :: "string list"

text \<open>
  Errors. The three sentinels are package variables declared outside \<^verbatim>\<open>azure.go\<close>.
  \<open>Errorf\<close> carries the formatted message, \<open>Wrap\<close> and \<open>WithMessage\<close> the cause and the
  message put in front of it, \<open>Foreign\<close> the message of an error that a library returned.
  \<open>NilDereference\<close> and \<open>IndexOutOfRange\<close> are the run-time panics of a method call on
  a nil \<^verbatim>\<open>*http.Request\<close> and of indexing a slice beyond its length.
\<close>

datatype error =
    ErrIncorrectRepositoryURL
  | ErrAuthenticationFailure
  | ErrRefNotFound
  | Errorf string
  | Wrap error string
  | WithMessage error string
  | Foreign string
  | NilDereference
  | IndexOutOfRange

text \<open>
  A panic is no value that a caller receives and wraps: it leaves every function on its
  way up the stack, so a caller hands it on as it is.
\<close>

definition panic :: "error \<Rightarrow> bool" where
  "panic e = (e = NilDereference \<or> e = IndexOutOfRange)"

text \<open>\<^verbatim>\<open>xs[i]\<close> on a slice.\<close>

definition index :: "'a list \<Rightarrow> nat \<Rightarrow> error + 'a" where
  "index xs i = (if i < length xs then Inr (xs ! i) else Inl IndexOutOfRange)"

text \<open>\<^verbatim>\<open>net/url\<close>: the \<^verbatim>\<open>URL\<close> and \<^verbatim>\<open>Userinfo\<close> structs and the query values.\<close>

record Userinfo =
  ui_username :: string
  ui_password :: string
  ui_passwordSet :: bool

record URL =
  Scheme :: string
  Opaque :: string
  User :: "Userinfo option"
  Host :: string
  Path :: string
  RawPath :: string
  ForceQuery :: bool
  RawQuery :: string
  Fragment :: string
  RawFragment :: string

definition Username :: "Userinfo option \<Rightarrow> string" where
  "Username u = (case u of None \<Rightarrow> [] | Some i \<Rightarrow> ui_username i)"

definition Password :: "Userinfo option \<Rightarrow> string" where
  "Password u = (case u of None \<Rightarrow> [] | Some i \<Rightarrow> ui_password i)"

type_synonym Values = "(string \<times> string list) list"

fun values_Set :: "Values \<Rightarrow> string \<Rightarrow> string \<Rightarrow> Values" where
  "values_Set [] k v = [(k, [v])]"
| "values_Set ((k', vs) # q) k v =
     (if k' = k then (k, [v]) # q else (k', vs) # values_Set q k v)"

text \<open>
  An HTTP request as far as the source shapes it: the URL it is sent to and the
  credentials given to \<^verbatim>\<open>SetBasicAuth\<close>, if any. A response: status code, status line
  and body.
\<close>

record request =
  req_url :: string
  req_auth :: "(string \<times> string) option"

record response =
  StatusCode :: int
  Status :: string
  Body :: string

type_synonym exchange = "request \<times> (string + response)"

text \<open>
  What lies outside \<^verbatim>\<open>azure.go\<close> is a parameter of the model, so that every theorem
  holds whatever these functions compute:
  \<^item> \<open>url_Parse\<close>, \<open>url_String\<close>, \<open>url_PathEscape\<close>, \<open>url_ParseQuery\<close> (what \<^verbatim>\<open>u.Query()\<close>
    reads from \<^verbatim>\<open>u.RawQuery\<close>) and \<open>values_Encode\<close> of \<^verbatim>\<open>net/url\<close>;
  \<^item> \<open>http_NewRequest\<close>, the error of \<^verbatim>\<open>http.NewRequestWithContext(ctx, "GET", url, nil)\<close>
    if it has one, and \<open>http_Do\<close>, the transport: its answer may depend on the exchanges
    made so far, and is a transport error (cancellation and time-out included) or a
    response;
  \<^item> \<open>json_refs\<close>, \<open>json_items\<close>, \<open>json_tree\<close>: \<^verbatim>\<open>encoding/json\<close> decoding a body into the
    three shapes the source declares (names of \<^verbatim>\<open>Value\<close>, items of \<^verbatim>\<open>Value\<close>, the
    \<^verbatim>\<open>relativePath\<close> of each of \<^verbatim>\<open>treeEntries\<close>);
  \<^item> \<open>ioutil_TempFile\<close>, the path of the file created among the existing ones, \<open>io_Copy\<close>,
    the bytes that reach the file and the error if the copy stops early, and
    \<open>archive_UnzipFile\<close>, the error of unpacking a file's content into a directory;
  \<^item> \<open>generateCacheKey\<close> and \<open>matchExtensions\<close>, helpers of the package that are declared
    in another file.
\<close>

record env =
  url_Parse :: "string \<Rightarrow> string + URL"
  url_String :: "URL \<Rightarrow> string"
  url_PathEscape :: "string \<Rightarrow> string"
  url_ParseQuery :: "string \<Rightarrow> Values"
  values_Encode :: "Values \<Rightarrow> string"
  http_NewRequest :: "string \<Rightarrow> string option"
  http_Do :: "exchange list \<Rightarrow> request \<Rightarrow> string + response"
  json_refs :: "string \<Rightarrow> string + azureRef list"
  json_items :: "string \<Rightarrow> string + azureItem list"
  json_tree :: "string \<Rightarrow> string + string list"
  ioutil_TempFile :: "(string \<rightharpoonup> string) \<Rightarrow> string + string"
  io_Copy :: "string \<Rightarrow> string \<times> string option"
  archive_UnzipFile :: "string option \<Rightarrow> string \<Rightarrow> string option"
  generateCacheKey :: "string \<Rightarrow> string \<Rightarrow> string"
  matchExtensions :: "string \<Rightarrow> string list \<Rightarrow> bool"

text \<open>
  The downloader: \<^verbatim>\<open>client\<close> is \<open>http_Do\<close> above and the mutex has no sequential
  content. (The constructor also installs the client as go-git's https transport, which
  no operation of this file reads.) The world outside it: the exchanges made so far (oldest first), the files of
  the temporary directory with their content, and the extractions made (content of the
  archive if the file was there, destination).
\<close>

record azureDownloader =
  baseUrl :: string
  cacheEnabled :: bool
  repoRefCache :: "string \<rightharpoonup> string list"
  repoTreeCache :: "string \<rightharpoonup> string list"

record world =
  exchanges :: "exchange list"
  files :: "string \<rightharpoonup> string"
  extractions :: "(string option \<times> string) list"

definition NewAzureDownloader :: "bool \<Rightarrow> azureDownloader" where
  "NewAzureDownloader enableCache =
     \<lparr>baseUrl = ''https://dev.azure.com'', cacheEnabled = enableCache,
      repoRefCache = Map.empty, repoTreeCache = Map.empty\<rparr>"

subsection \<open>Parsing a repository URL\<close>

text \<open>
  In the \<^verbatim>\<open>ssh://\<close> branch the source drops six runes of \<^verbatim>\<open>[]rune(rawUrl)\<close> and converts
  the rest back; the six runes are the six bytes of the prefix just tested.
\<close>

definition quote :: string where
  "quote = [char_of (0x22 :: nat)]"

definition expectedSshUrl :: string where
  "expectedSshUrl = ''git@ssh.dev.azure.com:v3/Organisation/Project/Repository''"

definition parseSshUrl :: "string \<Rightarrow> error + azureOptions" where
  "parseSshUrl rawUrl =
     (let path = Split rawUrl (CHR ''/'') in
      if length path \<noteq> 4
      then Inl (Errorf (''want url '' @ expectedSshUrl @ '', got '' @ rawUrl))
      else
        (case (index path 1, index path 2, index path 3) of
           (Inr org, Inr proj, Inr repo) \<Rightarrow>
             Inr \<lparr>organisation = org, project = proj, repository = repo,
                  username = [], password = []\<rparr>
         | _ \<Rightarrow> Inl IndexOutOfRange))"

definition expectedAzureDevOpsHttpUrl :: string where
  "expectedAzureDevOpsHttpUrl =
     ''https://Organisation@dev.azure.com/Organisation/Project/_git/Repository''"

definition expectedVisualStudioHttpUrl :: string where
  "expectedVisualStudioHttpUrl = ''https://organisation.visualstudio.com/project/_git/repository''"

definition parseHttpUrl :: "env \<Rightarrow> string \<Rightarrow> error + azureOptions" where
  "parseHttpUrl env rawUrl =
     (case url_Parse env rawUrl of
        Inl e \<Rightarrow> Inl (Wrap (Foreign e) ''failed to parse HTTP url'')
      | Inr u \<Rightarrow>
          if Host u = azureDevOpsHost then
            (let path = Split (Path u) (CHR ''/'') in
             if length path \<noteq> 5
             then Inl (Errorf (''want url '' @ expectedAzureDevOpsHttpUrl @ '', got ''
                                @ url_String env u))
             else
               (case (index path 1, index path 2, index path 4) of
                  (Inr org, Inr proj, Inr repo) \<Rightarrow>
                    Inr \<lparr>organisation = org, project = proj, repository = repo,
                         username = Username (User u), password = Password (User u)\<rparr>
                | _ \<Rightarrow> Inl IndexOutOfRange))
          else if HasSuffix (Host u) visualStudioHostSuffix then
            (let path = Split (Path u) (CHR ''/'') in
             if length path \<noteq> 4
             then Inl (Errorf (''want url '' @ expectedVisualStudioHttpUrl @ '', got ''
                                @ url_String env u))
             else
               (case (index path 1, index path 3) of
                  (Inr proj, Inr repo) \<Rightarrow>
                    Inr \<lparr>organisation = TrimSuffix (Host u) visualStudioHostSuffix,
                         project = proj, repository = repo,
                         username = Username (User u), password = Password (User u)\<rparr>
                | _ \<Rightarrow> Inl IndexOutOfRange))
          else Inl (Errorf (''unknown azure host in url '' @ quote @ rawUrl @ quote)))"

definition parseUrl :: "env \<Rightarrow> string \<Rightarrow> error + azureOptions" where
  "parseUrl env rawUrl =
     (if HasPrefix rawUrl ''https://'' \<or> HasPrefix rawUrl ''http://''
      then parseHttpUrl env rawUrl
      else if HasPrefix rawUrl ''git@ssh'' then parseSshUrl rawUrl
      else if HasPrefix rawUrl ''ssh://'' then parseSshUrl (drop 6 (runes_string rawUrl))
      else Inl (Errorf (''supported url schemes are https and ssh; recevied URL ''
                         @ rawUrl @ '' rawUrl'')))"

subsection \<open>Endpoints\<close>

text \<open>
  Each builder formats the path with escaped segments, parses it, sets its query
  parameters in the order of the source and renders the URL.
\<close>

definition repositoryPath :: "env \<Rightarrow> azureDownloader \<Rightarrow> azureOptions \<Rightarrow> string" where
  "repositoryPath env a config =
     baseUrl a @ ''/'' @ url_PathEscape env (organisation config) @ ''/''
       @ url_PathEscape env (project config) @ ''/_apis/git/repositories/''
       @ url_PathEscape env (repository config)"

definition versionDescriptor :: "Values \<Rightarrow> string \<Rightarrow> Values" where
  "versionDescriptor q referenceName =
     (if referenceName \<noteq> [] then
        values_Set
          (values_Set q ''versionDescriptor.versionType'' (getVersionType referenceName))
          ''versionDescriptor.version'' (formatReferenceName referenceName)
      else q)"

definition buildDownloadUrl ::
  "env \<Rightarrow> azureDownloader \<Rightarrow> azureOptions \<Rightarrow> string \<Rightarrow> error + string" where
  "buildDownloadUrl env a config referenceName =
     (let rawUrl = repositoryPath env a config @ ''/items'' in
      case url_Parse env rawUrl of
        Inl e \<Rightarrow> Inl (Wrap (Foreign e) (''failed to parse download url path '' @ rawUrl))
      | Inr u \<Rightarrow>
          (let q = url_ParseQuery env (RawQuery u);
               q = values_Set q ''scopePath'' ''/'';
               q = values_Set q ''download'' ''true'';
               q = versionDescriptor q referenceName;
               q = values_Set q ''$format'' ''zip'';
               q = values_Set q ''recursionLevel'' ''full'';
               q = values_Set q ''api-version'' ''6.0''
           in Inr (url_String env (u\<lparr>RawQuery := values_Encode env q\<rparr>))))"

definition buildRootItemUrl ::
  "env \<Rightarrow> azureDownloader \<Rightarrow> azureOptions \<Rightarrow> string \<Rightarrow> error + string" where
  "buildRootItemUrl env a config referenceName =
     (let rawUrl = repositoryPath env a config @ ''/items'' in
      case url_Parse env rawUrl of
        Inl e \<Rightarrow> Inl (Wrap (Foreign e) (''failed to parse root item url path '' @ rawUrl))
      | Inr u \<Rightarrow>
          (let q = url_ParseQuery env (RawQuery u);
               q = values_Set q ''scopePath'' ''/'';
               q = versionDescriptor q referenceName;
               q = values_Set q ''api-version'' ''6.0''
           in Inr (url_String env (u\<lparr>RawQuery := values_Encode env q\<rparr>))))"

definition buildRefsUrl :: "env \<Rightarrow> azureDownloader \<Rightarrow> azureOptions \<Rightarrow> error + string" where
  "buildRefsUrl env a config =
     (let rawUrl = repositoryPath env a config @ ''/refs'' in
      case url_Parse env rawUrl of
        Inl e \<Rightarrow> Inl (Wrap (Foreign e) (''failed to parse list refs url path '' @ rawUrl))
      | Inr u \<Rightarrow>
          (let q = url_ParseQuery env (RawQuery u);
               q = values_Set q ''api-version'' ''6.0''
           in Inr (url_String env (u\<lparr>RawQuery := values_Encode env q\<rparr>))))"

definition buildTreeUrl ::
  "env \<Rightarrow> azureDownloader \<Rightarrow> azureOptions \<Rightarrow> string \<Rightarrow> error + string" where
  "buildTreeUrl env a config rootObjectHash =
     (let rawUrl = repositoryPath env a config @ ''/trees/'' @ url_PathEscape env rootObjectHash in
      case url_Parse env rawUrl of
        Inl e \<Rightarrow> Inl (Wrap (Foreign e) (''failed to parse list tree url path '' @ rawUrl))
      | Inr u \<Rightarrow>
          (let q = url_ParseQuery env (RawQuery u);
               q = values_Set q ''recursive'' ''true'';
               q = values_Set q ''api-version'' ''6.0''
           in Inr (url_String env (u\<lparr>RawQuery := values_Encode env q\<rparr>))))"

subsection \<open>Requests\<close>

text \<open>
  The four operations that call the remote create the request and set its credentials
  with the same lines. \<open>basicAuth\<close> is their \<^verbatim>\<open>if\<close>/\<^verbatim>\<open>else if\<close>: the credentials of the
  call when one of them is not empty, else those of the locator when one of them is not
  empty, else none. The source sets the credentials before it looks at the error of
  \<^verbatim>\<open>http.NewRequestWithContext\<close>: when that failed the request is nil, and setting
  credentials on it panics.
\<close>

definition basicAuth :: "string \<Rightarrow> string \<Rightarrow> azureOptions \<Rightarrow> (string \<times> string) option" where
  "basicAuth u p config =
     (if u \<noteq> [] \<or> p \<noteq> [] then Some (u, p)
      else if username config \<noteq> [] \<or> password config \<noteq> []
      then Some (username config, password config)
      else None)"

definition newRequest :: "env \<Rightarrow> string \<Rightarrow> string \<Rightarrow> string \<Rightarrow> azureOptions \<Rightarrow> error + request" where
  "newRequest env url u p config =
     (case http_NewRequest env url of
        None \<Rightarrow> Inr \<lparr>req_url = url, req_auth = basicAuth u p config\<rparr>
      | Some e \<Rightarrow>
          (case basicAuth u p config of
             Some c \<Rightarrow> Inl NilDereference
           | None \<Rightarrow> Inl (WithMessage (Foreign e) ''failed to create a new HTTP request'')))"

definition client_Do :: "env \<Rightarrow> world \<Rightarrow> request \<Rightarrow> (string + response) \<times> world" where
  "client_Do env w req =
     (let r = http_Do env (exchanges w) req
      in (r, w\<lparr>exchanges := exchanges w @ [(req, r)]\<rparr>))"

subsection \<open>Operations\<close>

definition listRemote ::
  "env \<Rightarrow> azureDownloader \<Rightarrow> world \<Rightarrow> cloneOptions
     \<Rightarrow> (error + string list) \<times> azureDownloader \<times> world" where
  "listRemote env a w options =
     (case parseUrl env (clone_repositoryUrl options) of
        Inl e \<Rightarrow> (Inl (WithMessage e ''failed to parse url''), a, w)
      | Inr config \<Rightarrow>
     (case buildRefsUrl env a config of
        Inl e \<Rightarrow> (Inl (WithMessage e ''failed to build list refs url''), a, w)
      | Inr listRefsUrl \<Rightarrow>
     (case newRequest env listRefsUrl (clone_username options) (clone_password options) config of
        Inl e \<Rightarrow> (Inl e, a, w)
      | Inr req \<Rightarrow>
     (case client_Do env w req of
        (Inl e, w') \<Rightarrow> (Inl (WithMessage (Foreign e) ''failed to make an HTTP request''), a, w')
      | (Inr resp, w') \<Rightarrow>
          if StatusCode resp \<noteq> 200 then
            (if StatusCode resp = 404 then (Inl ErrIncorrectRepositoryURL, a, w')
             else if StatusCode resp = 401 \<or> StatusCode resp = 203
             then (Inl ErrAuthenticationFailure, a, w')
             else (Inl (Errorf (''failed to list refs url with a status ''
                                 @ quote @ Status resp @ quote)), a, w'))
          else
            (case json_refs env (Body resp) of
               Inl e \<Rightarrow> (Inl (Wrap (Foreign e) ''could not parse Azure refs response''), a, w')
             | Inr refs \<Rightarrow>
                 (let ret = filter (\<lambda>n. n \<noteq> ''HEAD'') (map Name refs) in
                  (Inr ret,
                   if cacheEnabled a
                   then a\<lparr>repoRefCache := (repoRefCache a)(clone_repositoryUrl options \<mapsto> ret)\<rparr>
                   else a,
                   w')))))))"

definition getRootItem ::
  "env \<Rightarrow> azureDownloader \<Rightarrow> world \<Rightarrow> fetchOptions \<Rightarrow> (error + azureItem) \<times> world" where
  "getRootItem env a w options =
     (case parseUrl env (fetch_repositoryUrl options) of
        Inl e \<Rightarrow> (Inl (WithMessage e ''failed to parse url''), w)
      | Inr config \<Rightarrow>
     (case buildRootItemUrl env a config (fetch_referenceName options) of
        Inl e \<Rightarrow> (Inl (WithMessage e ''failed to build azure root item url''), w)
      | Inr rootItemUrl \<Rightarrow>
     (case newRequest env rootItemUrl (fetch_username options) (fetch_password options) config of
        Inl e \<Rightarrow> (Inl e, w)
      | Inr req \<Rightarrow>
     (case client_Do env w req of
        (Inl e, w') \<Rightarrow> (Inl (WithMessage (Foreign e) ''failed to make an HTTP request''), w')
      | (Inr resp, w') \<Rightarrow>
          if StatusCode resp \<noteq> 200 then
            (Inl (Errorf (''failed to get repository root item with a status ''
                           @ quote @ Status resp @ quote)), w')
          else
            (case json_items env (Body resp) of
               Inl e \<Rightarrow> (Inl (Wrap (Foreign e) ''could not parse Azure items response''), w')
             | Inr [] \<Rightarrow>
                 (Inl (Errorf ''failed to get latest commitID in the repository''), w')
             | Inr (item # items) \<Rightarrow>
                 if CommitId item = []
                 then (Inl (Errorf ''failed to get latest commitID in the repository''), w')
                 else (Inr item, w'))))))"

definition latestCommitID ::
  "env \<Rightarrow> azureDownloader \<Rightarrow> world \<Rightarrow> fetchOptions \<Rightarrow> (error + string) \<times> world" where
  "latestCommitID env a w options =
     (case getRootItem env a w options of
        (Inl e, w') \<Rightarrow> (Inl e, w')
      | (Inr rootItem, w') \<Rightarrow> (Inr (CommitId rootItem), w'))"

definition listTree ::
  "env \<Rightarrow> azureDownloader \<Rightarrow> world \<Rightarrow> fetchOptions
     \<Rightarrow> (error + string list) \<times> azureDownloader \<times> world" where
  "listTree env a w options =
     (let repoKey = generateCacheKey env (fetch_repositoryUrl options) (fetch_referenceName options) in
      case repoTreeCache a repoKey of
        Some treeCache \<Rightarrow>
          (Inr (filter (\<lambda>path. matchExtensions env path (extensions options)) treeCache), a, w)
      | None \<Rightarrow>
     (case (case repoRefCache a (fetch_repositoryUrl options) of
              Some refCache \<Rightarrow> (Inr refCache, a, w)
            | None \<Rightarrow>
                listRemote env a w
                  \<lparr>clone_repositoryUrl = fetch_repositoryUrl options,
                   clone_username = fetch_username options,
                   clone_password = fetch_password options,
                   clone_referenceName = []\<rparr>) of
        (Inl e, a1, w1) \<Rightarrow> (Inl e, a1, w1)
      | (Inr refs, a1, w1) \<Rightarrow>
          if fetch_referenceName options \<notin> set refs then (Inl ErrRefNotFound, a1, w1)
          else
     (case getRootItem env a1 w1 options of
        (Inl e, w2) \<Rightarrow> (Inl e, a1, w2)
      | (Inr rootItem, w2) \<Rightarrow>
     (case parseUrl env (fetch_repositoryUrl options) of
        Inl e \<Rightarrow> (Inl (WithMessage e ''failed to parse url''), a1, w2)
      | Inr config \<Rightarrow>
     (case buildTreeUrl env a1 config (ObjectID rootItem) of
        Inl e \<Rightarrow> (Inl (WithMessage e ''failed to build list tree url''), a1, w2)
      | Inr listTreeUrl \<Rightarrow>
     (case newRequest env listTreeUrl (fetch_username options) (fetch_password options) config of
        Inl e \<Rightarrow> (Inl e, a1, w2)
      | Inr req \<Rightarrow>
     (case client_Do env w2 req of
        (Inl e, w3) \<Rightarrow>
          (Inl (WithMessage (Foreign e) ''failed to make an HTTP request''), a1, w3)
      | (Inr resp, w3) \<Rightarrow>
          if StatusCode resp \<noteq> 200 then
            (Inl (Errorf (''failed to list tree url with a status ''
                           @ quote @ Status resp @ quote)), a1, w3)
          else
            (case json_tree env (Body resp) of
               Inl e \<Rightarrow>
                 (Inl (Wrap (Foreign e) ''could not parse Azure tree response''), a1, w3)
             | Inr allPaths \<Rightarrow>
                 (Inr (filter (\<lambda>path. matchExtensions env path (extensions options)) allPaths),
                  if cacheEnabled a1
                  then a1\<lparr>repoTreeCache := (repoTreeCache a1)(repoKey \<mapsto> allPaths)\<rparr>
                  else a1,
                  w3)))))))))"

definition removeCache :: "env \<Rightarrow> azureDownloader \<Rightarrow> cloneOptions \<Rightarrow> azureDownloader" where
  "removeCache env a opt =
     (let a1 = a\<lparr>repoRefCache := (repoRefCache a)(clone_repositoryUrl opt := None)\<rparr>;
          repoKey = generateCacheKey env (clone_repositoryUrl opt) (clone_referenceName opt)
      in a1\<lparr>repoTreeCache := (repoTreeCache a1)(repoKey := None)\<rparr>)"

text \<open>
  \<open>downloadZipFromAzureDevOps\<close> creates the temporary file, then sends the request and
  copies the body into the file. It returns the path of the file, or an error and no path.
  \<open>download\<close> registers the removal of the file (\<^verbatim>\<open>defer os.Remove(zipFilepath)\<close>) once
  it has the path, so the removal runs after the extraction, whatever its outcome. A
  panic inside \<open>downloadZipFromAzureDevOps\<close> passes through \<open>download\<close> unwrapped.
\<close>

definition downloadZipFromAzureDevOps ::
  "env \<Rightarrow> azureDownloader \<Rightarrow> world \<Rightarrow> cloneOptions \<Rightarrow> (error + string) \<times> world" where
  "downloadZipFromAzureDevOps env a w options =
     (case parseUrl env (clone_repositoryUrl options) of
        Inl e \<Rightarrow> (Inl (WithMessage e ''failed to parse url''), w)
      | Inr config \<Rightarrow>
     (case buildDownloadUrl env a config (clone_referenceName options) of
        Inl e \<Rightarrow> (Inl (WithMessage e ''failed to build download url''), w)
      | Inr downloadUrl \<Rightarrow>
     (case ioutil_TempFile env (files w) of
        Inl e \<Rightarrow> (Inl (WithMessage (Foreign e) ''failed to create temp file''), w)
      | Inr zipFile \<Rightarrow>
     (let w1 = w\<lparr>files := (files w)(zipFile \<mapsto> [])\<rparr> in
      case newRequest env downloadUrl (clone_username options) (clone_password options) config of
        Inl e \<Rightarrow> (Inl e, w1)
      | Inr req \<Rightarrow>
     (case client_Do env w1 req of
        (Inl e, w2) \<Rightarrow> (Inl (WithMessage (Foreign e) ''failed to make an HTTP request''), w2)
      | (Inr res, w2) \<Rightarrow>
          if StatusCode res \<noteq> 200 then
            (Inl (Errorf (''failed to download zip with a status ''
                           @ quote @ Status res @ quote)), w2)
          else
            (case io_Copy env (Body res) of
               (written, Some e) \<Rightarrow>
                 (Inl (WithMessage (Foreign e) ''failed to save HTTP response to a file''),
                  w2\<lparr>files := (files w2)(zipFile \<mapsto> written)\<rparr>)
             | (written, None) \<Rightarrow>
                 (Inr zipFile, w2\<lparr>files := (files w2)(zipFile \<mapsto> written)\<rparr>)))))))"

definition download ::
  "env \<Rightarrow> azureDownloader \<Rightarrow> world \<Rightarrow> string \<Rightarrow> cloneOptions \<Rightarrow> error option \<times> world" where
  "download env a w destination options =
     (case downloadZipFromAzureDevOps env a w options of
        (Inl e, w1) \<Rightarrow>
          (Some (if panic e then e
                 else Wrap e ''failed to download a zip file from Azure DevOps''), w1)
      | (Inr zipFilepath, w1) \<Rightarrow>
          (let r = archive_UnzipFile env (files w1 zipFilepath) destination;
               w2 = w1\<lparr>extractions := extractions w1 @ [(files w1 zipFilepath, destination)]\<rparr>;
               w3 = w2\<lparr>files := (files w2)(zipFilepath := None)\<rparr>
           in case r of
                Some e \<Rightarrow> (Some (Wrap (Foreign e) ''failed to unzip file''), w3)
              | None \<Rightarrow> (None, w3)))"

subsection \<open>A test double\<close>

text \<open>
  A small instance of the environment, on which the operations can be run: URLs of the
  plain form \<^verbatim>\<open>scheme://[user[:password]@]host[/path][?query]\<close> with no escapes, query
  values rendered in the order they were set, a remote that answers \<^verbatim>\<open>200 OK\<close> to its first
  \<open>n\<close> requests and one given status to all later ones, with one fixed body for each
  endpoint, and decoders that know these bodies. The cache key joins URL and reference
  with a dash; a path matches an extension list that is empty or has a suffix of the
  path.
\<close>

definition fixture_Parse :: "string \<Rightarrow> string + URL" where
  "fixture_Parse s =
     (let scheme = takeWhile (\<lambda>c. c \<noteq> CHR '':'') s;
          rest = dropWhile (\<lambda>c. c \<noteq> CHR '':'') s
      in if \<not> HasPrefix rest ''://'' then Inl ''missing protocol scheme''
         else
           (let r = drop 3 rest;
                authority = takeWhile (\<lambda>c. c \<noteq> CHR ''/'' \<and> c \<noteq> CHR ''?'') r;
                after = dropWhile (\<lambda>c. c \<noteq> CHR ''/'' \<and> c \<noteq> CHR ''?'') r;
                info = takeWhile (\<lambda>c. c \<noteq> CHR ''@'') authority;
                user = (if CHR ''@'' \<in> set authority
                        then Some \<lparr>ui_username = takeWhile (\<lambda>c. c \<noteq> CHR '':'') info,
                                   ui_password = drop 1 (dropWhile (\<lambda>c. c \<noteq> CHR '':'') info),
                                   ui_passwordSet = (CHR '':'' \<in> set info)\<rparr>
                        else None);
                host = (if CHR ''@'' \<in> set authority
                        then drop 1 (dropWhile (\<lambda>c. c \<noteq> CHR ''@'') authority)
                        else authority)
            in Inr \<lparr>Scheme = scheme, Opaque = [], User = user, Host = host,
                     Path = takeWhile (\<lambda>c. c \<noteq> CHR ''?'') after, RawPath = [],
                     ForceQuery = False,
                     RawQuery = drop 1 (dropWhile (\<lambda>c. c \<noteq> CHR ''?'') after),
                     Fragment = [], RawFragment = []\<rparr>))"

definition fixture_String :: "URL \<Rightarrow> string" where
  "fixture_String u =
     Scheme u @ ''://''
       @ (case User u of
            None \<Rightarrow> []
          | Some i \<Rightarrow>
              ui_username i @ (if ui_passwordSet i then '':'' @ ui_password i else []) @ ''@'')
       @ Host u @ Path u @ (if RawQuery u = [] then [] else ''?'' @ RawQuery u)"

fun fixture_Encode :: "Values \<Rightarrow> string" where
  "fixture_Encode [] = []"
| "fixture_Encode [(k, vs)] = k @ ''='' @ concat vs"
| "fixture_Encode ((k, vs) # q) = k @ ''='' @ concat vs @ ''&'' @ fixture_Encode q"

definition fixture_Do ::
  "nat \<Rightarrow> int \<Rightarrow> string \<Rightarrow> exchange list \<Rightarrow> request \<Rightarrow> string + response" where
  "fixture_Do n code text history req =
     Inr \<lparr>StatusCode = (if length history < n then 200 else code),
          Status = (if length history < n then ''200 OK'' else text),
          Body = (if Contains (req_url req) ''/refs?'' then ''refs''
                  else if Contains (req_url req) ''/trees/'' then ''tree''
                  else if Contains (req_url req) ''download=true'' then ''zip''
                  else ''items'')\<rparr>"

definition fixture_refs :: "string \<Rightarrow> string + azureRef list" where
  "fixture_refs body =
     (if body = ''refs''
      then Inr [\<lparr>Name = ''HEAD'', ref_ObjectID = ''c0ffee''\<rparr>,
                \<lparr>Name = ''refs/heads/main'', ref_ObjectID = ''c0ffee''\<rparr>,
                \<lparr>Name = ''refs/tags/v1'', ref_ObjectID = ''c0ffee''\<rparr>]
      else Inl ''unexpected body'')"

definition fixture_items :: "string \<Rightarrow> string + azureItem list" where
  "fixture_items body =
     (if body = ''items''
      then Inr [\<lparr>ObjectID = ''7ree'', CommitId = ''c0ffee'', item_Path = ''/''\<rparr>]
      else Inl ''unexpected body'')"

definition fixture_tree :: "string \<Rightarrow> string + string list" where
  "fixture_tree body =
     (if body = ''tree'' then Inr [''docker-compose.yml'', ''README.md'', ''stacks/app.yml'']
      else Inl ''unexpected body'')"

definition fixture_TempFile :: "(string \<rightharpoonup> string) \<Rightarrow> string + string" where
  "fixture_TempFile fs =
     (if fs ''/tmp/azure-git-repo-1.zip'' = None then Inr ''/tmp/azure-git-repo-1.zip''
      else Inl ''file exists'')"

definition fixture_UnzipFile :: "string option \<Rightarrow> string \<Rightarrow> string option" where
  "fixture_UnzipFile content destination =
     (case content of
        None \<Rightarrow> Some ''no such file''
      | Some c \<Rightarrow> if c = ''zip'' then None else Some ''not a valid zip file'')"

definition fixture_matchExtensions :: "string \<Rightarrow> string list \<Rightarrow> bool" where
  "fixture_matchExtensions target exts = (exts = [] \<or> list_ex (HasSuffix target) exts)"

definition fixture :: "nat \<Rightarrow> int \<Rightarrow> string \<Rightarrow> env" where
  "fixture n code text =
     \<lparr>url_Parse = fixture_Parse, url_String = fixture_String, url_PathEscape = (\<lambda>s. s),
      url_ParseQuery = (\<lambda>s. []), values_Encode = fixture_Encode,
      http_NewRequest = (\<lambda>url. None), http_Do = fixture_Do n code text,
      json_refs = fixture_refs, json_items = fixture_items, json_tree = fixture_tree,
      ioutil_TempFile = fixture_TempFile, io_Copy = (\<lambda>body. (body, None)),
      archive_UnzipFile = fixture_UnzipFile,
      generateCacheKey = (\<lambda>url ref. url @ ''-'' @ ref),
      matchExtensions = fixture_matchExtensions\<rparr>"

definition world0 :: world where
  "world0 = \<lparr>exchanges = [], files = Map.empty, extractions = []\<rparr>"

definition sampleUrl :: string where
  "sampleUrl = ''https://org@dev.azure.com/org/proj/_git/repo''"

definition sampleFetch :: "string \<Rightarrow> string list \<Rightarrow> fetchOptions" where
  "sampleFetch ref exts =
     \<lparr>fetch_repositoryUrl = sampleUrl, fetch_username = [], fetch_password = [],
      fetch_referenceName = ref, extensions = exts\<rparr>"

definition sampleClone :: "string \<Rightarrow> cloneOptions" where
  "sampleClone ref =
     \<lparr>clone_repositoryUrl = sampleUrl, clone_username = [], clone_password = [],
      clone_referenceName = ref\<rparr>"

text \<open>
  The state and the exchanges that the first \<open>listTree\<close> of \<open>sampleUrl\<close> at
  \<^verbatim>\<open>refs/heads/main\<close> leaves behind on this remote, with the cache enabled.
\<close>

definition sampleCached :: azureDownloader where
  "sampleCached =
     \<lparr>baseUrl = ''https://dev.azure.com'', cacheEnabled = True,
      repoRefCache = [sampleUrl \<mapsto> [''refs/heads/main'', ''refs/tags/v1'']],
      repoTreeCache = [sampleUrl @ ''-refs/heads/main''
                         \<mapsto> [''docker-compose.yml'', ''README.md'', ''stacks/app.yml'']]\<rparr>"


definition refsRequest :: request where
  "refsRequest =
     \<lparr>req_url = ''https://dev.azure.com/org/proj/_apis/git/repositories/repo/refs?api-version=6.0'',
      req_auth = Some (''org'', [])\<rparr>"

definition itemsRequest :: request where
  "itemsRequest =
     \<lparr>req_url = ''https://dev.azure.com/org/proj/_apis/git/repositories/repo/items?scopePath=/&versionDescriptor.versionType=branch&versionDescriptor.version=main&api-version=6.0'',
      req_auth = Some (''org'', [])\<rparr>"

definition treeRequest :: request where
  "treeRequest =
     \<lparr>req_url = ''https://dev.azure.com/org/proj/_apis/git/repositories/repo/trees/7ree?recursive=true&api-version=6.0'',
      req_auth = Some (''org'', [])\<rparr>"

definition ok :: "string \<Rightarrow> string + response" where
  "ok body = Inr \<lparr>StatusCode = 200, Status = ''200 OK'', Body = body\<rparr>"

definition sampleExchanges :: "exchange list" where
  "sampleExchanges =
     [(refsRequest, ok ''refs''), (itemsRequest, ok ''items''), (treeRequest, ok ''tree'')]"

section \<open>Properties\<close>

subsection \<open>Strings\<close>

lemma HasPrefix_iff_prefix: "HasPrefix s p \<longleftrightarrow> prefix p s"
  unfolding HasPrefix_def prefix_def
  by (metis append_eq_conv_conj append_take_drop_id)

lemma HasPrefix_append [simp]: "HasPrefix (p @ t) p"
  by (simp add: HasPrefix_def)

lemma TrimPrefix_append [simp]: "TrimPrefix (p @ t) p = t"
  by (simp add: TrimPrefix_def)

lemma HasSuffix_iff_suffix: "HasSuffix s x \<longleftrightarrow> suffix x s"
proof
  assume "HasSuffix s x"
  then have "s = take (length s - length x) s @ x"
    by (metis HasSuffix_def append_take_drop_id)
  then show "suffix x s" by (metis suffixI)
next
  assume "suffix x s"
  then obtain zs where "s = zs @ x" by (auto simp: suffix_def)
  then show "HasSuffix s x" by (simp add: HasSuffix_def)
qed

lemma Contains_iff_sublist: "Contains s sub \<longleftrightarrow> sublist sub s"
proof (induction s)
  case Nil
  then show ?case by simp
next
  case (Cons c cs)
  then show ?case
    by (simp add: HasPrefix_iff_prefix sublist_Cons_right)
qed

lemma length_Split_from: "length (Split_from sep cur s) = Suc (count_list s sep)"
  by (induction s arbitrary: cur) auto

lemma length_Split: "length (Split s sep) = Suc (count_list s sep)"
  by (simp add: Split_def length_Split_from)

lemma index_in_range [simp]: "i < length xs \<Longrightarrow> index xs i = Inr (xs ! i)"
  by (simp add: index_def)

subsection \<open>Provider dispatch\<close>

text \<open>
  Claim C10. \<open>isAzureUrl\<close> holds of exactly the strings that have \<^verbatim>\<open>dev.azure.com\<close> or
  \<^verbatim>\<open>.visualstudio.com\<close> somewhere as a substring, wherever it stands. So it holds of
  \<^verbatim>\<open>https://example.com/dev.azure.com/x\<close>, whose host is \<^verbatim>\<open>example.com\<close> and which has the
  Azure domain in its path only: the Azure path is chosen for a URL of another host.
\<close>

theorem isAzureUrl_substring:
  "(isAzureUrl s \<longleftrightarrow> sublist ''dev.azure.com'' s \<or> sublist ''.visualstudio.com'' s)
   \<and> isAzureUrl ''https://example.com/dev.azure.com/x''
   \<and> map_sum id Host (fixture_Parse ''https://example.com/dev.azure.com/x'') = Inr ''example.com''"
proof (intro conjI)
  show "isAzureUrl s \<longleftrightarrow> sublist ''dev.azure.com'' s \<or> sublist ''.visualstudio.com'' s"
    by (simp add: isAzureUrl_def Contains_iff_sublist azureDevOpsHost_def
          visualStudioHostSuffix_def)
  show "isAzureUrl ''https://example.com/dev.azure.com/x''"
    by (simp add: isAzureUrl_def azureDevOpsHost_def HasPrefix_def)
  show "map_sum id Host (fixture_Parse ''https://example.com/dev.azure.com/x'') = Inr ''example.com''"
    by (simp add: fixture_Parse_def HasPrefix_def)
qed

subsection \<open>Reference names\<close>

text \<open>
  Claim C8. For every string \<open>s\<close>: when \<open>s\<close> starts with \<^verbatim>\<open>refs/heads/\<close>,
  \<open>formatReferenceName\<close> returns what follows the prefix and \<open>getVersionType\<close> returns
  \<^verbatim>\<open>branch\<close>; when it starts with \<^verbatim>\<open>refs/tags/\<close>, what follows the prefix and \<^verbatim>\<open>tag\<close>; when
  it starts with neither, \<open>s\<close> itself and \<^verbatim>\<open>commit\<close>. In particular \<^verbatim>\<open>refs/heads/main\<close> gives
  \<^verbatim>\<open>main\<close> and \<^verbatim>\<open>refs/tags/v1\<close> gives \<^verbatim>\<open>v1\<close>.
\<close>

theorem formatReferenceName_getVersionType:
  "(\<forall>t. s = ''refs/heads/'' @ t \<longrightarrow> formatReferenceName s = t \<and> getVersionType s = ''branch'')
   \<and> (\<forall>t. s = ''refs/tags/'' @ t \<longrightarrow> formatReferenceName s = t \<and> getVersionType s = ''tag'')
   \<and> (\<not> prefix ''refs/heads/'' s \<and> \<not> prefix ''refs/tags/'' s
        \<longrightarrow> formatReferenceName s = s \<and> getVersionType s = ''commit'')
   \<and> formatReferenceName ''refs/heads/main'' = ''main''
   \<and> getVersionType ''refs/heads/main'' = ''branch''
   \<and> formatReferenceName ''refs/tags/v1'' = ''v1''
   \<and> getVersionType ''refs/tags/v1'' = ''tag''"
  by (simp add: formatReferenceName_def getVersionType_def branchPrefix_def tagPrefix_def
        HasPrefix_iff_prefix TrimPrefix_def)

theorem formatReferenceName_getVersionType_witness:
  "formatReferenceName ''refs/heads/dev'' = ''dev'' \<and> getVersionType ''refs/heads/dev'' = ''branch''
   \<and> formatReferenceName ''refs/tags/v2'' = ''v2'' \<and> getVersionType ''refs/tags/v2'' = ''tag''
   \<and> formatReferenceName ''c0ffee'' = ''c0ffee'' \<and> getVersionType ''c0ffee'' = ''commit''"
  using formatReferenceName_getVersionType [of "''refs/heads/dev''"]
    formatReferenceName_getVersionType [of "''refs/tags/v2''"]
    formatReferenceName_getVersionType [of "''c0ffee''"]
  by simp

subsection \<open>Parsing a repository URL\<close>

lemma parseSshUrl_no_panic:
  "parseSshUrl s \<noteq> Inl IndexOutOfRange \<and> parseSshUrl s \<noteq> Inl NilDereference"
  by (simp add: parseSshUrl_def Let_def)

lemma parseHttpUrl_no_panic:
  "parseHttpUrl env s \<noteq> Inl IndexOutOfRange \<and> parseHttpUrl env s \<noteq> Inl NilDereference"
  by (simp add: parseHttpUrl_def Let_def split: sum.splits)

lemma parseUrl_no_panic:
  "parseUrl env s \<noteq> Inl IndexOutOfRange \<and> parseUrl env s \<noteq> Inl NilDereference"
  by (simp add: parseUrl_def parseSshUrl_no_panic parseHttpUrl_no_panic)

lemma parseHttpUrl_devops:
  assumes "url_Parse env rawUrl = Inr u" and "Host u = ''dev.azure.com''"
  shows "parseHttpUrl env rawUrl =
           (if length (Split (Path u) (CHR ''/'')) = 5
            then Inr \<lparr>organisation = Split (Path u) (CHR ''/'') ! 1,
                      project = Split (Path u) (CHR ''/'') ! 2,
                      repository = Split (Path u) (CHR ''/'') ! 4,
                      username = Username (User u), password = Password (User u)\<rparr>
            else Inl (Errorf (''want url '' @ expectedAzureDevOpsHttpUrl @ '', got ''
                                @ url_String env u)))"
  using assms by (simp add: parseHttpUrl_def azureDevOpsHost_def Let_def)

lemma parseSshUrl_success_iff:
  "(\<exists>opt. parseSshUrl s = Inr opt) \<longleftrightarrow> length (Split s (CHR ''/'')) = 4"
  by (simp add: parseSshUrl_def Let_def)

lemma parseHttpUrl_success_iff:
  "(\<exists>opt. parseHttpUrl env s = Inr opt) \<longleftrightarrow>
     (\<exists>u. url_Parse env s = Inr u
        \<and> (Host u = ''dev.azure.com'' \<and> length (Split (Path u) (CHR ''/'')) = 5
           \<or> Host u \<noteq> ''dev.azure.com'' \<and> suffix ''.visualstudio.com'' (Host u)
               \<and> length (Split (Path u) (CHR ''/'')) = 4))"
  by (auto simp: parseHttpUrl_def Let_def azureDevOpsHost_def visualStudioHostSuffix_def
        HasSuffix_iff_suffix split: sum.splits)

lemma parseUrl_success_iff:
  "(\<exists>opt. parseUrl env rawUrl = Inr opt) \<longleftrightarrow>
     (prefix ''https://'' rawUrl \<or> prefix ''http://'' rawUrl)
       \<and> (\<exists>u. url_Parse env rawUrl = Inr u
            \<and> (Host u = ''dev.azure.com'' \<and> length (Split (Path u) (CHR ''/'')) = 5
               \<or> Host u \<noteq> ''dev.azure.com'' \<and> suffix ''.visualstudio.com'' (Host u)
                   \<and> length (Split (Path u) (CHR ''/'')) = 4))
     \<or> prefix ''git@ssh'' rawUrl \<and> length (Split rawUrl (CHR ''/'')) = 4
     \<or> prefix ''ssh://'' rawUrl \<and> length (Split (drop 6 (runes_string rawUrl)) (CHR ''/'')) = 4"
proof -
  have x: "prefix ''git@ssh'' rawUrl \<Longrightarrow> \<not> prefix ''https://'' rawUrl \<and> \<not> prefix ''http://'' rawUrl"
    by (auto simp: prefix_def)
  have y: "prefix ''ssh://'' rawUrl \<Longrightarrow> \<not> prefix ''https://'' rawUrl \<and> \<not> prefix ''http://'' rawUrl
            \<and> \<not> prefix ''git@ssh'' rawUrl"
    by (auto simp: prefix_def)
  show ?thesis
    using x y
    by (auto simp: parseUrl_def HasPrefix_iff_prefix parseSshUrl_success_iff
          parseHttpUrl_success_iff)
qed

text \<open>
  Claim C7. \<open>parseUrl\<close> is a function of its input that returns either an error or a whole
  locator and never panics (no index is read out of range). It succeeds on four shapes
  and fails on every other input: an \<^verbatim>\<open>https://\<close> or \<^verbatim>\<open>http://\<close> URL that \<^verbatim>\<open>net/url\<close> parses
  with host \<^verbatim>\<open>dev.azure.com\<close> and a path of five pieces, or with a host that ends in
  \<^verbatim>\<open>.visualstudio.com\<close> and a path of four pieces; a string that starts with \<^verbatim>\<open>git@ssh\<close> and
  has four pieces; a string that starts with \<^verbatim>\<open>ssh://\<close> and has four pieces after that
  prefix. For a URL that starts with
  \<^verbatim>\<open>https://\<close> and that \<^verbatim>\<open>net/url\<close> parses with host \<^verbatim>\<open>dev.azure.com\<close>, parsing succeeds
  exactly when the path splits at \<^verbatim>\<open>/\<close> into five pieces (it has four slashes); then
  piece 1 is the organisation, piece 2 the project, piece 4 the repository, and user name
  and password are those of the URL's userinfo. For
  \<^verbatim>\<open>https://org@dev.azure.com/org/proj/_git/repo\<close>, which \<^verbatim>\<open>net/url\<close> parses into user \<^verbatim>\<open>org\<close>,
  host \<^verbatim>\<open>dev.azure.com\<close> and path \<^verbatim>\<open>/org/proj/_git/repo\<close>, the locator is \<^verbatim>\<open>org\<close>, \<^verbatim>\<open>proj\<close>,
  \<^verbatim>\<open>repo\<close>.
\<close>

theorem parseUrl_devops_shape:
  "parseUrl env rawUrl \<noteq> Inl IndexOutOfRange \<and> parseUrl env rawUrl \<noteq> Inl NilDereference
   \<and> ((\<exists>opt. parseUrl env rawUrl = Inr opt) \<longleftrightarrow>
         (prefix ''https://'' rawUrl \<or> prefix ''http://'' rawUrl)
           \<and> (\<exists>u. url_Parse env rawUrl = Inr u
                \<and> (Host u = ''dev.azure.com'' \<and> length (Split (Path u) (CHR ''/'')) = 5
                   \<or> Host u \<noteq> ''dev.azure.com'' \<and> suffix ''.visualstudio.com'' (Host u)
                       \<and> length (Split (Path u) (CHR ''/'')) = 4))
         \<or> prefix ''git@ssh'' rawUrl \<and> length (Split rawUrl (CHR ''/'')) = 4
         \<or> prefix ''ssh://'' rawUrl
             \<and> length (Split (drop 6 (runes_string rawUrl)) (CHR ''/'')) = 4)
   \<and> (prefix ''https://'' rawUrl \<and> url_Parse env rawUrl = Inr u \<and> Host u = ''dev.azure.com''
        \<longrightarrow> ((\<exists>opt. parseUrl env rawUrl = Inr opt) \<longleftrightarrow> length (Split (Path u) (CHR ''/'')) = 5)
          \<and> (length (Split (Path u) (CHR ''/'')) = 5 \<longleftrightarrow> count_list (Path u) (CHR ''/'') = 4)
          \<and> (length (Split (Path u) (CHR ''/'')) = 5
               \<longrightarrow> parseUrl env rawUrl =
                     Inr \<lparr>organisation = Split (Path u) (CHR ''/'') ! 1,
                          project = Split (Path u) (CHR ''/'') ! 2,
                          repository = Split (Path u) (CHR ''/'') ! 4,
                          username = Username (User u), password = Password (User u)\<rparr>))
   \<and> (\<forall>v. url_Parse env ''https://org@dev.azure.com/org/proj/_git/repo'' = Inr v
        \<and> Host v = ''dev.azure.com'' \<and> Path v = ''/org/proj/_git/repo''
        \<and> User v = Some \<lparr>ui_username = ''org'', ui_password = [], ui_passwordSet = False\<rparr>
        \<longrightarrow> parseUrl env ''https://org@dev.azure.com/org/proj/_git/repo'' =
              Inr \<lparr>organisation = ''org'', project = ''proj'', repository = ''repo'',
                   username = ''org'', password = []\<rparr>)"
proof (intro conjI impI allI)
  show "parseUrl env rawUrl \<noteq> Inl IndexOutOfRange" "parseUrl env rawUrl \<noteq> Inl NilDereference"
    by (simp_all add: parseUrl_no_panic)
  show "(\<exists>opt. parseUrl env rawUrl = Inr opt) \<longleftrightarrow>
         (prefix ''https://'' rawUrl \<or> prefix ''http://'' rawUrl)
           \<and> (\<exists>u. url_Parse env rawUrl = Inr u
                \<and> (Host u = ''dev.azure.com'' \<and> length (Split (Path u) (CHR ''/'')) = 5
                   \<or> Host u \<noteq> ''dev.azure.com'' \<and> suffix ''.visualstudio.com'' (Host u)
                       \<and> length (Split (Path u) (CHR ''/'')) = 4))
         \<or> prefix ''git@ssh'' rawUrl \<and> length (Split rawUrl (CHR ''/'')) = 4
         \<or> prefix ''ssh://'' rawUrl
             \<and> length (Split (drop 6 (runes_string rawUrl)) (CHR ''/'')) = 4"
    by (rule parseUrl_success_iff)
next
  assume h: "prefix ''https://'' rawUrl \<and> url_Parse env rawUrl = Inr u \<and> Host u = ''dev.azure.com''"
  then have p: "parseUrl env rawUrl = parseHttpUrl env rawUrl"
    by (simp add: parseUrl_def HasPrefix_iff_prefix)
  from h show "(\<exists>opt. parseUrl env rawUrl = Inr opt) \<longleftrightarrow> length (Split (Path u) (CHR ''/'')) = 5"
    by (simp add: p parseHttpUrl_devops)
  show "length (Split (Path u) (CHR ''/'')) = 5 \<longleftrightarrow> count_list (Path u) (CHR ''/'') = 4"
    by (simp add: length_Split)
  assume "length (Split (Path u) (CHR ''/'')) = 5"
  with h show "parseUrl env rawUrl =
      Inr \<lparr>organisation = Split (Path u) (CHR ''/'') ! 1,
           project = Split (Path u) (CHR ''/'') ! 2,
           repository = Split (Path u) (CHR ''/'') ! 4,
           username = Username (User u), password = Password (User u)\<rparr>"
    by (simp add: p parseHttpUrl_devops)
next
  fix v
  assume h: "url_Parse env ''https://org@dev.azure.com/org/proj/_git/repo'' = Inr v
        \<and> Host v = ''dev.azure.com'' \<and> Path v = ''/org/proj/_git/repo''
        \<and> User v = Some \<lparr>ui_username = ''org'', ui_password = [], ui_passwordSet = False\<rparr>"
  have "parseUrl env ''https://org@dev.azure.com/org/proj/_git/repo''
          = parseHttpUrl env ''https://org@dev.azure.com/org/proj/_git/repo''"
    by (simp add: parseUrl_def HasPrefix_def)
  with h show "parseUrl env ''https://org@dev.azure.com/org/proj/_git/repo'' =
              Inr \<lparr>organisation = ''org'', project = ''proj'', repository = ''repo'',
                   username = ''org'', password = []\<rparr>"
    by (simp add: parseHttpUrl_devops Split_def Username_def Password_def)
qed

lemma fixture_Parse_sample:
  "fixture_Parse ''https://org@dev.azure.com/org/proj/_git/repo'' =
     Inr \<lparr>Scheme = ''https'', Opaque = [],
          User = Some \<lparr>ui_username = ''org'', ui_password = [], ui_passwordSet = False\<rparr>,
          Host = ''dev.azure.com'', Path = ''/org/proj/_git/repo'', RawPath = [],
          ForceQuery = False, RawQuery = [], Fragment = [], RawFragment = []\<rparr>"
  by (simp add: fixture_Parse_def HasPrefix_def)

theorem parseUrl_devops_shape_witness:
  "parseUrl (fixture 0 200 ''200 OK'') ''https://org@dev.azure.com/org/proj/_git/repo'' =
     Inr \<lparr>organisation = ''org'', project = ''proj'', repository = ''repo'',
          username = ''org'', password = []\<rparr>
   \<and> length (Split ''/org/proj/_git/repo'' (CHR ''/'')) = 5"
  using parseUrl_devops_shape [of "fixture 0 200 ''200 OK''"
      "''https://org@dev.azure.com/org/proj/_git/repo''"
      "\<lparr>Scheme = ''https'', Opaque = [],
          User = Some \<lparr>ui_username = ''org'', ui_password = [], ui_passwordSet = False\<rparr>,
          Host = ''dev.azure.com'', Path = ''/org/proj/_git/repo'', RawPath = [],
          ForceQuery = False, RawQuery = [], Fragment = [], RawFragment = []\<rparr>"]
  by (simp add: fixture_def fixture_Parse_sample Split_def Username_def Password_def)

subsection \<open>Listing the references\<close>

lemma listRemote_error_state:
  "listRemote env a w options = (Inl e, a', w') \<Longrightarrow> a' = a"
  by (auto simp: listRemote_def Let_def split: sum.splits prod.splits if_splits option.splits)

lemma listRemote_response:
  assumes "listRemote env a w options = (res, a', w')"
      and "exchanges w' = exchanges w @ [(req, Inr resp)]"
  shows "res =
     (if StatusCode resp \<noteq> 200 then
        (if StatusCode resp = 404 then Inl ErrIncorrectRepositoryURL
         else if StatusCode resp = 401 \<or> StatusCode resp = 203 then Inl ErrAuthenticationFailure
         else Inl (Errorf (''failed to list refs url with a status '' @ quote @ Status resp @ quote)))
      else (case json_refs env (Body resp) of
              Inl e \<Rightarrow> Inl (Wrap (Foreign e) ''could not parse Azure refs response'')
            | Inr refs \<Rightarrow> Inr (filter (\<lambda>n. n \<noteq> ''HEAD'') (map Name refs))))"
  using assms
  by (auto simp: listRemote_def client_Do_def Let_def split: sum.splits prod.splits if_splits)

text \<open>
  Claim C5. Take any call of \<open>listRemote\<close>. If it returns an error, the downloader is as
  it was: both cache maps are written on the success path only. If the call received a
  response (its one exchange ends the log), then status 404 makes it return
  \<open>ErrIncorrectRepositoryURL\<close>, status 401 or 203 makes it return
  \<open>ErrAuthenticationFailure\<close>, and any other status outside 200..299 makes it return the
  error whose message carries the status text; in each case the caches are unchanged.
\<close>

theorem listRemote_status_errors:
  assumes "listRemote env a w options = (res, a', w')"
  shows "(\<forall>e. res = Inl e \<longrightarrow> a' = a)
    \<and> (\<forall>req resp. exchanges w' = exchanges w @ [(req, Inr resp)] \<longrightarrow>
         (StatusCode resp = 404 \<longrightarrow> res = Inl ErrIncorrectRepositoryURL \<and> a' = a)
       \<and> (StatusCode resp = 401 \<or> StatusCode resp = 203
            \<longrightarrow> res = Inl ErrAuthenticationFailure \<and> a' = a)
       \<and> ((StatusCode resp < 200 \<or> 299 < StatusCode resp) \<and> StatusCode resp \<noteq> 404
            \<and> StatusCode resp \<noteq> 401
           \<longrightarrow> res = Inl (Errorf (''failed to list refs url with a status ''
                                    @ quote @ Status resp @ quote)) \<and> a' = a))"
proof (intro conjI allI impI)
  fix e assume "res = Inl e"
  with assms show "a' = a" by (simp add: listRemote_error_state)
next
  fix req resp
  assume x: "exchanges w' = exchanges w @ [(req, Inr resp)]"
  note r = listRemote_response [OF assms x]
  { assume "StatusCode resp = 404"
    with r show "res = Inl ErrIncorrectRepositoryURL" by simp
    with assms show "a' = a" by (simp add: listRemote_error_state) }
  { assume "StatusCode resp = 401 \<or> StatusCode resp = 203"
    with r show "res = Inl ErrAuthenticationFailure" by auto
    with assms show "a' = a" by (simp add: listRemote_error_state) }
  { assume "(StatusCode resp < 200 \<or> 299 < StatusCode resp) \<and> StatusCode resp \<noteq> 404
            \<and> StatusCode resp \<noteq> 401"
    with r show "res = Inl (Errorf (''failed to list refs url with a status ''
                                    @ quote @ Status resp @ quote))" by auto
    with assms show "a' = a" by (simp add: listRemote_error_state) }
qed

lemma listRemote_frame:
  assumes "listRemote env a w options = (res, a', w')"
  shows "repoTreeCache a' = repoTreeCache a \<and> cacheEnabled a' = cacheEnabled a
         \<and> baseUrl a' = baseUrl a \<and> files w' = files w \<and> extractions w' = extractions w"
  using assms
  by (auto simp: listRemote_def client_Do_def Let_def split: sum.splits prod.splits if_splits)

lemma listRemote_exchanges:
  assumes "listRemote env a w options = (res, a', w')"
  shows "(exchanges w' = exchanges w \<and> (\<exists>e. res = Inl e))
       \<or> (\<exists>config url. parseUrl env (clone_repositoryUrl options) = Inr config
             \<and> buildRefsUrl env a config = Inr url
             \<and> exchanges w' = exchanges w @
                  [(\<lparr>req_url = url,
                      req_auth = basicAuth (clone_username options) (clone_password options) config\<rparr>,
                    http_Do env (exchanges w)
                      \<lparr>req_url = url,
                       req_auth = basicAuth (clone_username options) (clone_password options) config\<rparr>)])"
  using assms
  by (auto simp: listRemote_def client_Do_def newRequest_def Let_def
        split: sum.splits prod.splits if_splits option.splits)

subsection \<open>The tree listing and its cache\<close>

lemma getRootItem_frame:
  assumes "getRootItem env a w options = (res, w')"
  shows "files w' = files w \<and> extractions w' = extractions w"
  using assms
  by (auto simp: getRootItem_def client_Do_def Let_def split: sum.splits prod.splits if_splits list.splits)

lemma getRootItem_exchanges:
  assumes "getRootItem env a w options = (res, w')"
  shows "(exchanges w' = exchanges w \<and> (\<exists>e. res = Inl e))
       \<or> (\<exists>config url. parseUrl env (fetch_repositoryUrl options) = Inr config
             \<and> buildRootItemUrl env a config (fetch_referenceName options) = Inr url
             \<and> exchanges w' = exchanges w @
                  [(\<lparr>req_url = url,
                      req_auth = basicAuth (fetch_username options) (fetch_password options) config\<rparr>,
                    http_Do env (exchanges w)
                      \<lparr>req_url = url,
                       req_auth = basicAuth (fetch_username options) (fetch_password options) config\<rparr>)])"
  using assms
  by (auto simp: getRootItem_def client_Do_def newRequest_def Let_def
        split: sum.splits prod.splits if_splits option.splits list.splits)

lemma listTree_hit:
  assumes "repoTreeCache a (generateCacheKey env (fetch_repositoryUrl options) (fetch_referenceName options)) = Some tc"
  shows "listTree env a w options =
           (Inr (filter (\<lambda>path. matchExtensions env path (extensions options)) tc), a, w)"
  using assms by (simp add: listTree_def)


lemma buildTreeUrl_baseUrl:
  "baseUrl a' = baseUrl a \<Longrightarrow> buildTreeUrl env a' config h = buildTreeUrl env a config h"
  by (simp add: buildTreeUrl_def repositoryPath_def)

lemma listTree_caches_unfiltered:
  assumes "cacheEnabled a"
      and "repoTreeCache a (generateCacheKey env (fetch_repositoryUrl options) (fetch_referenceName options)) = None"
      and "listTree env a w options = (Inr paths, a1, w1)"
  shows "\<exists>pre config (item :: azureItem) url resp allPaths.
           parseUrl env (fetch_repositoryUrl options) = Inr config
         \<and> buildTreeUrl env a config (ObjectID item) = Inr url
         \<and> exchanges w1 = pre @
              [(\<lparr>req_url = url,
                  req_auth = basicAuth (fetch_username options) (fetch_password options) config\<rparr>,
                Inr resp)]
         \<and> StatusCode resp = 200
         \<and> json_tree env (Body resp) = Inr allPaths
         \<and> repoTreeCache a1 =
              (repoTreeCache a)(generateCacheKey env (fetch_repositoryUrl options)
                                  (fetch_referenceName options) \<mapsto> allPaths)
         \<and> paths = filter (\<lambda>path. matchExtensions env path (extensions options)) allPaths"
proof -
  let ?copts = "\<lparr>clone_repositoryUrl = fetch_repositoryUrl options,
              clone_username = fetch_username options,
              clone_password = fetch_password options,
              clone_referenceName = []\<rparr>"
  obtain r0 a0 w0 where
    r: "(case repoRefCache a (fetch_repositoryUrl options) of
              Some refCache \<Rightarrow> (Inr refCache, a, w)
            | None \<Rightarrow> listRemote env a w ?copts) = (r0, a0, w0)"
    by (metis prod_cases3)
  have f: "repoTreeCache a0 = repoTreeCache a \<and> cacheEnabled a0 = cacheEnabled a
           \<and> baseUrl a0 = baseUrl a"
  proof (cases "repoRefCache a (fetch_repositoryUrl options)")
    case None
    with r have "listRemote env a w ?copts = (r0, a0, w0)" by simp
    from listRemote_frame [OF this] show ?thesis by simp
  next
    case (Some refCache)
    with r show ?thesis by simp
  qed
  obtain r1 w1' where g: "getRootItem env a0 w0 options = (r1, w1')" by force
  from assms r obtain refs where r0: "r0 = Inr refs" and m: "fetch_referenceName options \<in> set refs"
    by (cases r0) (auto simp: listTree_def split: if_splits)
  from assms r r0 m g obtain item where r1: "r1 = Inr item"
    by (cases r1) (auto simp: listTree_def)
  let ?auth = "basicAuth (fetch_username options) (fetch_password options)"
  let ?key = "generateCacheKey env (fetch_repositoryUrl options) (fetch_referenceName options)"
  note start = assms(2,3) r r0 m g r1
  from start obtain config where p: "parseUrl env (fetch_repositoryUrl options) = Inr config"
    by (cases "parseUrl env (fetch_repositoryUrl options)") (auto simp: listTree_def)
  from start p obtain url where u: "buildTreeUrl env a0 config (ObjectID item) = Inr url"
    by (cases "buildTreeUrl env a0 config (ObjectID item)") (auto simp: listTree_def)
  from start p u have n: "http_NewRequest env url = None"
    by (cases "http_NewRequest env url")
       (auto simp: listTree_def newRequest_def split: option.splits)
  let ?req = "\<lparr>req_url = url, req_auth = ?auth config\<rparr>"
  from n have q: "newRequest env url (fetch_username options) (fetch_password options) config = Inr ?req"
    by (simp add: newRequest_def)
  from start p u q obtain resp where d: "http_Do env (exchanges w1') ?req = Inr resp"
    by (cases "http_Do env (exchanges w1') ?req")
       (auto simp: listTree_def client_Do_def Let_def)
  from start p u q d have s: "StatusCode resp = 200"
    by (cases "StatusCode resp = 200") (auto simp: listTree_def client_Do_def Let_def)
  from start p u q d s obtain allPaths where j: "json_tree env (Body resp) = Inr allPaths"
    by (cases "json_tree env (Body resp)") (auto simp: listTree_def client_Do_def Let_def)
  from start p u q d s j assms(1) f
  have res: "paths = filter (\<lambda>path. matchExtensions env path (extensions options)) allPaths"
    "a1 = a0\<lparr>repoTreeCache := (repoTreeCache a0)(?key \<mapsto> allPaths)\<rparr>"
    "w1 = w1'\<lparr>exchanges := exchanges w1' @ [(?req, Inr resp)]\<rparr>"
    by (auto simp: listTree_def client_Do_def Let_def)
  from u f have u': "buildTreeUrl env a config (ObjectID item) = Inr url"
    using buildTreeUrl_baseUrl [of a0 a env config "ObjectID item"] by simp
  from res f have c: "repoTreeCache a1 = (repoTreeCache a)(?key \<mapsto> allPaths)" by simp
  from res have e: "exchanges w1 = exchanges w1' @ [(?req, Inr resp)]" by simp
  show ?thesis
    by (rule exI [of _ "exchanges w1'"], rule exI [of _ config], rule exI [of _ item],
        rule exI [of _ url], rule exI [of _ resp], rule exI [of _ allPaths])
       (simp add: p u' e s j c res(1) [symmetric])
qed


text \<open>
  Claim C1. If a \<open>listTree\<close> call succeeds on a downloader with the cache enabled, then a
  second call with the same arguments, in whatever state the world is by then, changes
  neither the downloader nor the world (so it makes no exchange with the remote) and
  returns the same paths. What the tree cache then holds under the key of the URL and the
  reference is the unfiltered list: the list that was cached before if the first call was
  answered from the cache, else the whole list decoded from the response to the tree
  request, the last exchange of the first call. A call that differs in its extensions
  only likewise makes no exchange and returns that list filtered by the new extensions.
\<close>

theorem listTree_cached_idempotent:
  assumes "cacheEnabled a" and "listTree env a w options = (Inr paths, a1, w1)"
  shows "listTree env a1 w2 options = (Inr paths, a1, w2)
    \<and> (\<exists>allPaths.
          repoTreeCache a1 (generateCacheKey env (fetch_repositoryUrl options) (fetch_referenceName options))
            = Some allPaths
          \<and> paths = filter (\<lambda>path. matchExtensions env path (extensions options)) allPaths
          \<and> (\<forall>exts. listTree env a1 w2 (options\<lparr>extensions := exts\<rparr>) =
                (Inr (filter (\<lambda>path. matchExtensions env path exts) allPaths), a1, w2))
          \<and> (\<forall>tc. repoTreeCache a (generateCacheKey env (fetch_repositoryUrl options)
                                      (fetch_referenceName options)) = Some tc
                \<longrightarrow> allPaths = tc \<and> a1 = a \<and> w1 = w)
          \<and> (repoTreeCache a (generateCacheKey env (fetch_repositoryUrl options)
                                 (fetch_referenceName options)) = None
                \<longrightarrow> (\<exists>pre config (item :: azureItem) url resp.
                       parseUrl env (fetch_repositoryUrl options) = Inr config
                     \<and> buildTreeUrl env a config (ObjectID item) = Inr url
                     \<and> exchanges w1 = pre @
                          [(\<lparr>req_url = url,
                              req_auth = basicAuth (fetch_username options)
                                           (fetch_password options) config\<rparr>,
                            Inr resp)]
                     \<and> StatusCode resp = 200
                     \<and> json_tree env (Body resp) = Inr allPaths
                     \<and> repoTreeCache a1 =
                          (repoTreeCache a)(generateCacheKey env (fetch_repositoryUrl options)
                                              (fetch_referenceName options) \<mapsto> allPaths))))"
proof -
  let ?key = "generateCacheKey env (fetch_repositoryUrl options) (fetch_referenceName options)"
  let ?f = "\<lambda>exts. filter (\<lambda>path. matchExtensions env path exts)"
  have again: "\<And>allPaths. repoTreeCache a1 ?key = Some allPaths \<Longrightarrow>
      \<forall>exts. listTree env a1 w2 (options\<lparr>extensions := exts\<rparr>) = (Inr (?f exts allPaths), a1, w2)"
    by (simp add: listTree_def)
  show ?thesis
  proof (cases "repoTreeCache a ?key")
    case (Some tc)
    with assms(2) have h: "paths = ?f (extensions options) tc" "a1 = a" "w1 = w"
      by (simp_all add: listTree_hit)
    with Some have c: "repoTreeCache a1 ?key = Some tc" by simp
    from c h have "listTree env a1 w2 options = (Inr paths, a1, w2)"
      by (simp add: listTree_hit)
    with c h again [OF c] Some show ?thesis by simp
  next
    case None
    from listTree_caches_unfiltered [OF assms(1) None assms(2)]
    obtain pre config and item :: azureItem and url resp allPaths where
      u: "parseUrl env (fetch_repositoryUrl options) = Inr config
         \<and> buildTreeUrl env a config (ObjectID item) = Inr url
         \<and> exchanges w1 = pre @
              [(\<lparr>req_url = url,
                  req_auth = basicAuth (fetch_username options) (fetch_password options) config\<rparr>,
                Inr resp)]
         \<and> StatusCode resp = 200
         \<and> json_tree env (Body resp) = Inr allPaths
         \<and> repoTreeCache a1 = (repoTreeCache a)(?key \<mapsto> allPaths)"
      and p: "paths = ?f (extensions options) allPaths"
      by blast
    from u have c: "repoTreeCache a1 ?key = Some allPaths" by simp
    from c p have r: "listTree env a1 w2 options = (Inr paths, a1, w2)"
      by (simp add: listTree_hit)
    from u have "\<exists>pre config (item :: azureItem) url resp.
                       parseUrl env (fetch_repositoryUrl options) = Inr config
                     \<and> buildTreeUrl env a config (ObjectID item) = Inr url
                     \<and> exchanges w1 = pre @
                          [(\<lparr>req_url = url,
                              req_auth = basicAuth (fetch_username options)
                                           (fetch_password options) config\<rparr>,
                            Inr resp)]
                     \<and> StatusCode resp = 200
                     \<and> json_tree env (Body resp) = Inr allPaths
                     \<and> repoTreeCache a1 = (repoTreeCache a)(?key \<mapsto> allPaths)"
      by blast
    with r c p again [OF c] None show ?thesis by simp
  qed
qed

lemma listRemote_auth:
  assumes "listRemote env a w options = (res, a', w')"
      and "parseUrl env (clone_repositoryUrl options) = Inr config"
  shows "\<exists>new. exchanges w' = exchanges w @ new
           \<and> list_all (\<lambda>x. req_auth (fst x) =
                 basicAuth (clone_username options) (clone_password options) config) new"
  using listRemote_exchanges [OF assms(1)] assms(2) by auto

lemma getRootItem_auth:
  assumes "getRootItem env a w options = (res, w')"
      and "parseUrl env (fetch_repositoryUrl options) = Inr config"
  shows "\<exists>new. exchanges w' = exchanges w @ new
           \<and> list_all (\<lambda>x. req_auth (fst x) =
                 basicAuth (fetch_username options) (fetch_password options) config) new"
  using getRootItem_exchanges [OF assms(1)] assms(2) by auto

lemma listTree_auth:
  assumes "listTree env a w options = (res, a', w')"
      and "parseUrl env (fetch_repositoryUrl options) = Inr config"
  shows "\<exists>new. exchanges w' = exchanges w @ new
           \<and> list_all (\<lambda>x. req_auth (fst x) =
                 basicAuth (fetch_username options) (fetch_password options) config) new"
proof (cases "repoTreeCache a (generateCacheKey env (fetch_repositoryUrl options) (fetch_referenceName options))")
  case (Some tc)
  with assms(1) show ?thesis by (simp add: listTree_hit)
next
  case None
  let ?P = "\<lambda>x. req_auth (fst x) = basicAuth (fetch_username options) (fetch_password options) config"
  let ?copts = "\<lparr>clone_repositoryUrl = fetch_repositoryUrl options,
                   clone_username = fetch_username options,
                   clone_password = fetch_password options,
                   clone_referenceName = []\<rparr>"
  obtain r0 a0 w0 where
    r: "(case repoRefCache a (fetch_repositoryUrl options) of
              Some refCache \<Rightarrow> (Inr refCache, a, w)
            | None \<Rightarrow> listRemote env a w ?copts) = (r0, a0, w0)"
    by (metis prod_cases3)
  have s0: "\<exists>new. exchanges w0 = exchanges w @ new \<and> list_all ?P new"
  proof (cases "repoRefCache a (fetch_repositoryUrl options)")
    case None
    with r have "listRemote env a w ?copts = (r0, a0, w0)" by simp
    from listRemote_auth [OF this] assms(2) show ?thesis by simp
  next
    case (Some refCache)
    with r show ?thesis by simp
  qed
  show ?thesis
  proof (cases r0)
    case (Inl e)
    with assms(1) None r s0 show ?thesis by (simp add: listTree_def)
  next
    case (Inr refs)
    show ?thesis
    proof (cases "fetch_referenceName options \<in> set refs")
      case False
      with assms(1) None r s0 Inr show ?thesis by (simp add: listTree_def)
    next
      case True
      obtain r1 w1 where g: "getRootItem env a0 w0 options = (r1, w1)" by force
      from s0 obtain new0 where n0: "exchanges w0 = exchanges w @ new0" "list_all ?P new0"
        by blast
      from getRootItem_auth [OF g assms(2)]
      obtain new1 where n1: "exchanges w1 = exchanges w0 @ new1" "list_all ?P new1"
        by blast
      from n0 n1 have "exchanges w1 = exchanges w @ (new0 @ new1) \<and> list_all ?P (new0 @ new1)"
        by simp
      then have s1: "\<exists>new. exchanges w1 = exchanges w @ new \<and> list_all ?P new"
        by blast
      from assms None r Inr True g
      have "exchanges w' = exchanges w1 \<or> (\<exists>url. exchanges w' = exchanges w1 @
                  [(\<lparr>req_url = url, req_auth = basicAuth (fetch_username options) (fetch_password options) config\<rparr>,
                    http_Do env (exchanges w1)
                     \<lparr>req_url = url, req_auth = basicAuth (fetch_username options) (fetch_password options) config\<rparr>)])"
        by (auto simp: listTree_def client_Do_def newRequest_def Let_def
              split: sum.splits prod.splits if_splits option.splits)
      with s1 show ?thesis by auto
    qed
  qed
qed


lemma downloadZip_exchanges:
  assumes "downloadZipFromAzureDevOps env a w options = (res, w')"
  shows "(exchanges w' = exchanges w \<and> (\<exists>e. res = Inl e))
       \<or> (\<exists>config url. parseUrl env (clone_repositoryUrl options) = Inr config
             \<and> buildDownloadUrl env a config (clone_referenceName options) = Inr url
             \<and> exchanges w' = exchanges w @
                  [(\<lparr>req_url = url,
                      req_auth = basicAuth (clone_username options) (clone_password options) config\<rparr>,
                    http_Do env (exchanges w)
                      \<lparr>req_url = url,
                       req_auth = basicAuth (clone_username options) (clone_password options) config\<rparr>)])"
  using assms
  by (auto simp: downloadZipFromAzureDevOps_def client_Do_def newRequest_def Let_def
        split: sum.splits prod.splits if_splits option.splits)

lemma download_exchanges:
  assumes "download env a w destination options = (res, w')"
  shows "\<exists>r w1. downloadZipFromAzureDevOps env a w options = (r, w1) \<and> exchanges w' = exchanges w1"
  using assms
  by (auto simp: download_def Let_def split: sum.splits prod.splits option.splits)

lemma download_auth:
  assumes "download env a w destination options = (res, w')"
      and "parseUrl env (clone_repositoryUrl options) = Inr config"
  shows "\<exists>new. exchanges w' = exchanges w @ new
           \<and> list_all (\<lambda>x. req_auth (fst x) =
                 basicAuth (clone_username options) (clone_password options) config) new"
proof -
  from download_exchanges [OF assms(1)] obtain r w1 where
    d: "downloadZipFromAzureDevOps env a w options = (r, w1)" and e: "exchanges w' = exchanges w1"
    by blast
  from downloadZip_exchanges [OF d] assms(2) e show ?thesis by auto
qed

subsection \<open>Credentials\<close>

text \<open>
  Claim C9. Let the repository URL parse to the locator \<open>config\<close>. Every exchange that
  \<open>listRemote\<close>, \<open>getRootItem\<close>, \<open>listTree\<close> (refs listing, root item and tree listing) and
  \<open>download\<close> add to the log carries the credentials \<open>basicAuth u p config\<close>, where \<open>u\<close> and
  \<open>p\<close> are the user name and the password of the call: those of the call when one of them
  is not empty, whatever the URL embeds; else those embedded in the URL when one of them
  is not empty; else none.
\<close>

theorem basic_auth_precedence:
  assumes "parseUrl env url = Inr config"
  shows
   "(\<forall>a w r res a' w'.
       listRemote env a w
         \<lparr>clone_repositoryUrl = url, clone_username = u, clone_password = p,
          clone_referenceName = r\<rparr> = (res, a', w')
       \<longrightarrow> (\<exists>new. exchanges w' = exchanges w @ new
                  \<and> list_all (\<lambda>x. req_auth (fst x) = basicAuth u p config) new))
  \<and> (\<forall>a w r exts res w'.
       getRootItem env a w
         \<lparr>fetch_repositoryUrl = url, fetch_username = u, fetch_password = p,
          fetch_referenceName = r, extensions = exts\<rparr> = (res, w')
       \<longrightarrow> (\<exists>new. exchanges w' = exchanges w @ new
                  \<and> list_all (\<lambda>x. req_auth (fst x) = basicAuth u p config) new))
  \<and> (\<forall>a w r exts res a' w'.
       listTree env a w
         \<lparr>fetch_repositoryUrl = url, fetch_username = u, fetch_password = p,
          fetch_referenceName = r, extensions = exts\<rparr> = (res, a', w')
       \<longrightarrow> (\<exists>new. exchanges w' = exchanges w @ new
                  \<and> list_all (\<lambda>x. req_auth (fst x) = basicAuth u p config) new))
  \<and> (\<forall>a w r destination res w'.
       download env a w destination
         \<lparr>clone_repositoryUrl = url, clone_username = u, clone_password = p,
          clone_referenceName = r\<rparr> = (res, w')
       \<longrightarrow> (\<exists>new. exchanges w' = exchanges w @ new
                  \<and> list_all (\<lambda>x. req_auth (fst x) = basicAuth u p config) new))
  \<and> (u \<noteq> [] \<or> p \<noteq> [] \<longrightarrow> basicAuth u p config = Some (u, p))
  \<and> (u = [] \<and> p = [] \<and> (username config \<noteq> [] \<or> password config \<noteq> [])
       \<longrightarrow> basicAuth u p config = Some (username config, password config))
  \<and> (u = [] \<and> p = [] \<and> username config = [] \<and> password config = []
       \<longrightarrow> basicAuth u p config = None)"
proof (intro conjI allI impI)
  fix a w r res a' w'
  assume "listRemote env a w
         \<lparr>clone_repositoryUrl = url, clone_username = u, clone_password = p,
          clone_referenceName = r\<rparr> = (res, a', w')"
  from listRemote_auth [OF this] assms
  show "\<exists>new. exchanges w' = exchanges w @ new
                  \<and> list_all (\<lambda>x. req_auth (fst x) = basicAuth u p config) new"
    by simp
next
  fix a w r exts res w'
  assume "getRootItem env a w
         \<lparr>fetch_repositoryUrl = url, fetch_username = u, fetch_password = p,
          fetch_referenceName = r, extensions = exts\<rparr> = (res, w')"
  from getRootItem_auth [OF this] assms
  show "\<exists>new. exchanges w' = exchanges w @ new
                  \<and> list_all (\<lambda>x. req_auth (fst x) = basicAuth u p config) new"
    by simp
next
  fix a w r exts res a' w'
  assume "listTree env a w
         \<lparr>fetch_repositoryUrl = url, fetch_username = u, fetch_password = p,
          fetch_referenceName = r, extensions = exts\<rparr> = (res, a', w')"
  from listTree_auth [OF this] assms
  show "\<exists>new. exchanges w' = exchanges w @ new
                  \<and> list_all (\<lambda>x. req_auth (fst x) = basicAuth u p config) new"
    by simp
next
  fix a w r destination res w'
  assume "download env a w destination
         \<lparr>clone_repositoryUrl = url, clone_username = u, clone_password = p,
          clone_referenceName = r\<rparr> = (res, w')"
  from download_auth [OF this] assms
  show "\<exists>new. exchanges w' = exchanges w @ new
                  \<and> list_all (\<lambda>x. req_auth (fst x) = basicAuth u p config) new"
    by simp
qed (auto simp: basicAuth_def)

subsection \<open>Reference validation\<close>


subsection \<open>Unfolding\<close>

text \<open>The definitions that running the model on the test double unfolds.\<close>

lemmas fixture_defs = fixture_def fixture_Parse_def fixture_String_def fixture_Do_def
  fixture_refs_def fixture_items_def fixture_tree_def fixture_TempFile_def
  fixture_UnzipFile_def fixture_matchExtensions_def world0_def sampleUrl_def
  sampleFetch_def sampleClone_def NewAzureDownloader_def sampleCached_def refsRequest_def
  itemsRequest_def treeRequest_def ok_def sampleExchanges_def

lemmas model_defs = parseUrl_def parseHttpUrl_def HasPrefix_def HasSuffix_def Split_def
  index_def azureDevOpsHost_def Username_def Password_def repositoryPath_def
  versionDescriptor_def getVersionType_def formatReferenceName_def branchPrefix_def
  tagPrefix_def TrimPrefix_def newRequest_def basicAuth_def client_Do_def quote_def Let_def
  panic_def
  buildRefsUrl_def buildRootItemUrl_def buildTreeUrl_def buildDownloadUrl_def

subsection \<open>Invalidation\<close>

lemma buildRefsUrl_baseUrl:
  "baseUrl a' = baseUrl a \<Longrightarrow> buildRefsUrl env a' config = buildRefsUrl env a config"
  by (simp add: buildRefsUrl_def repositoryPath_def)

lemma listRemote_sends:
  assumes "parseUrl env (clone_repositoryUrl options) = Inr config"
      and "buildRefsUrl env a config = Inr url"
      and "http_NewRequest env url = None"
      and "listRemote env a w options = (res, a', w')"
  shows "exchanges w' = exchanges w @
           [(\<lparr>req_url = url,
               req_auth = basicAuth (clone_username options) (clone_password options) config\<rparr>,
             http_Do env (exchanges w)
               \<lparr>req_url = url,
                req_auth = basicAuth (clone_username options) (clone_password options) config\<rparr>)]"
  using assms
  by (auto simp: listRemote_def client_Do_def newRequest_def Let_def
        split: sum.splits prod.splits if_splits option.splits)

lemma listTree_after_listRemote:
  assumes "repoTreeCache a (generateCacheKey env (fetch_repositoryUrl options) (fetch_referenceName options)) = None"
      and "repoRefCache a (fetch_repositoryUrl options) = None"
      and "listRemote env a w
             \<lparr>clone_repositoryUrl = fetch_repositoryUrl options,
              clone_username = fetch_username options,
              clone_password = fetch_password options,
              clone_referenceName = []\<rparr> = (r0, a0, w0)"
      and "listTree env a w options = (res, a', w')"
  shows "\<exists>rest. exchanges w' = exchanges w0 @ rest"
proof (cases r0)
  case (Inl e)
  with assms show ?thesis by (simp add: listTree_def)
next
  case (Inr refs)
  show ?thesis
  proof (cases "fetch_referenceName options \<in> set refs")
    case False
    with assms Inr show ?thesis by (simp add: listTree_def)
  next
    case True
    obtain r1 w1 where g: "getRootItem env a0 w0 options = (r1, w1)" by force
    from getRootItem_exchanges [OF g]
    obtain new1 where n1: "exchanges w1 = exchanges w0 @ new1" by auto
    from assms Inr True g
    have "\<exists>new2. exchanges w' = exchanges w1 @ new2"
      by (auto simp: listTree_def client_Do_def Let_def
            split: sum.splits prod.splits if_splits option.splits)
    with n1 show ?thesis by auto
  qed
qed

lemma listTree_fresh_success:
  assumes "repoTreeCache a (generateCacheKey env (fetch_repositoryUrl options) (fetch_referenceName options)) = None"
      and "repoRefCache a (fetch_repositoryUrl options) = None"
      and "listTree env a w options = (Inr paths, a', w')"
  shows "\<exists>x1 x2 x3. exchanges w' = exchanges w @ [x1, x2, x3]"
proof -
  let ?copts = "\<lparr>clone_repositoryUrl = fetch_repositoryUrl options,
              clone_username = fetch_username options,
              clone_password = fetch_password options,
              clone_referenceName = []\<rparr>"
  obtain r0 a0 w0 where l: "listRemote env a w ?copts = (r0, a0, w0)"
    by (metis prod_cases3)
  obtain r1 w1 where g: "getRootItem env a0 w0 options = (r1, w1)" by force
  from assms l obtain refs where r0: "r0 = Inr refs" and m: "fetch_referenceName options \<in> set refs"
    by (cases r0) (auto simp: listTree_def split: if_splits)
  from assms l r0 m g obtain item where r1: "r1 = Inr item"
    by (cases r1) (auto simp: listTree_def)
  from listRemote_exchanges [OF l] r0
  obtain x1 where e0: "exchanges w0 = exchanges w @ [x1]" by auto
  from getRootItem_exchanges [OF g] r1
  obtain x2 where e1: "exchanges w1 = exchanges w0 @ [x2]" by auto
  from assms l r0 m g r1
  have "\<exists>x3. exchanges w' = exchanges w1 @ [x3]"
    by (auto simp: listTree_def client_Do_def Let_def
          split: sum.splits prod.splits if_splits option.splits)
  with e0 e1 show ?thesis by auto
qed

text \<open>
  Claim C6. \<open>removeCache\<close> for a repository URL and a reference empties the entry of the
  reference cache under that URL and the entry of the tree cache under the key of that
  URL and reference; every other entry of both maps, the base URL and the cache flag stay
  as they were. So the next \<open>listTree\<close> for that URL and reference finds neither a tree nor
  a reference list cached, whatever was cached before: whenever the refs request for the
  URL can be built (the URL parses, the endpoint and the request are created), the first
  thing the call does is to send that request to the remote again; and whenever the call
  succeeds, it has made three fresh exchanges (refs listing, root item, tree listing).
\<close>

theorem removeCache_invalidates:
  "(\<forall>k. repoRefCache (removeCache env a opt) k =
          (if k = clone_repositoryUrl opt then None else repoRefCache a k))
   \<and> (\<forall>k. repoTreeCache (removeCache env a opt) k =
          (if k = generateCacheKey env (clone_repositoryUrl opt) (clone_referenceName opt)
           then None else repoTreeCache a k))
   \<and> baseUrl (removeCache env a opt) = baseUrl a
   \<and> cacheEnabled (removeCache env a opt) = cacheEnabled a
   \<and> (\<forall>options config url w res a' w'.
         fetch_repositoryUrl options = clone_repositoryUrl opt
         \<and> fetch_referenceName options = clone_referenceName opt
         \<and> parseUrl env (clone_repositoryUrl opt) = Inr config
         \<and> buildRefsUrl env a config = Inr url
         \<and> http_NewRequest env url = None
         \<and> listTree env (removeCache env a opt) w options = (res, a', w')
       \<longrightarrow> (\<exists>rest. exchanges w' = exchanges w @
              (\<lparr>req_url = url,
                 req_auth = basicAuth (fetch_username options) (fetch_password options) config\<rparr>,
               http_Do env (exchanges w)
                 \<lparr>req_url = url,
                  req_auth = basicAuth (fetch_username options) (fetch_password options) config\<rparr>)
              # rest))
   \<and> (\<forall>options w paths a' w'.
         fetch_repositoryUrl options = clone_repositoryUrl opt
         \<and> fetch_referenceName options = clone_referenceName opt
         \<and> listTree env (removeCache env a opt) w options = (Inr paths, a', w')
       \<longrightarrow> (\<exists>x1 x2 x3. exchanges w' = exchanges w @ [x1, x2, x3]))"
proof (intro conjI allI impI)
  fix options :: fetchOptions and w paths a' w'
  let ?a = "removeCache env a opt"
  assume h: "fetch_repositoryUrl options = clone_repositoryUrl opt
         \<and> fetch_referenceName options = clone_referenceName opt
         \<and> listTree env (removeCache env a opt) w options = (Inr paths, a', w')"
  then have t: "repoTreeCache ?a (generateCacheKey env (fetch_repositoryUrl options) (fetch_referenceName options)) = None"
    and r: "repoRefCache ?a (fetch_repositoryUrl options) = None"
    by (simp_all add: removeCache_def Let_def)
  from h have "listTree env ?a w options = (Inr paths, a', w')" by simp
  from listTree_fresh_success [OF t r this]
  show "\<exists>x1 x2 x3. exchanges w' = exchanges w @ [x1, x2, x3]" .
next
  fix options :: fetchOptions and config url w res a' w'
  let ?a = "removeCache env a opt"
  let ?copts = "\<lparr>clone_repositoryUrl = fetch_repositoryUrl options,
              clone_username = fetch_username options,
              clone_password = fetch_password options,
              clone_referenceName = []\<rparr>"
  assume h: "fetch_repositoryUrl options = clone_repositoryUrl opt
         \<and> fetch_referenceName options = clone_referenceName opt
         \<and> parseUrl env (clone_repositoryUrl opt) = Inr config
         \<and> buildRefsUrl env a config = Inr url
         \<and> http_NewRequest env url = None
         \<and> listTree env (removeCache env a opt) w options = (res, a', w')"
  then have t: "repoTreeCache ?a (generateCacheKey env (fetch_repositoryUrl options) (fetch_referenceName options)) = None"
    and r: "repoRefCache ?a (fetch_repositoryUrl options) = None"
    by (simp_all add: removeCache_def Let_def)
  obtain r0 a0 w0 where l: "listRemote env ?a w ?copts = (r0, a0, w0)"
    by (metis prod_cases3)
  have b: "buildRefsUrl env ?a config = Inr url"
    using h buildRefsUrl_baseUrl [of ?a a env config] by (simp add: removeCache_def Let_def)
  from h have p: "parseUrl env (clone_repositoryUrl ?copts) = Inr config" by simp
  from h have n: "http_NewRequest env url = None" by simp
  from listRemote_sends [OF p b n l]
  have s: "exchanges w0 = exchanges w @
           [(\<lparr>req_url = url,
               req_auth = basicAuth (fetch_username options) (fetch_password options) config\<rparr>,
             http_Do env (exchanges w)
               \<lparr>req_url = url,
                req_auth = basicAuth (fetch_username options) (fetch_password options) config\<rparr>)]"
    by simp
  from h have "listTree env ?a w options = (res, a', w')" by simp
  from listTree_after_listRemote [OF t r l this] obtain rest where
    "exchanges w' = exchanges w0 @ rest" by blast
  with s show "\<exists>rest. exchanges w' = exchanges w @
              (\<lparr>req_url = url,
                 req_auth = basicAuth (fetch_username options) (fetch_password options) config\<rparr>,
               http_Do env (exchanges w)
                 \<lparr>req_url = url,
                  req_auth = basicAuth (fetch_username options) (fetch_password options) config\<rparr>)
              # rest"
    by simp
qed (simp_all add: removeCache_def Let_def)

subsection \<open>References that only the caches know\<close>


lemma download_panic:
  assumes "downloadZipFromAzureDevOps env a w options = (Inl NilDereference, w1)"
  shows "download env a w destination options = (Some NilDereference, w1)"
  using assms by (simp add: download_def panic_def)

subsection \<open>Status codes outside \<open>listRemote\<close>\<close>

lemma getRootItem_status:
  assumes "getRootItem env a w options = (res, w')"
      and "exchanges w' = exchanges w @ [(req, Inr resp)]"
      and "StatusCode resp \<noteq> 200"
  shows "res = Inl (Errorf (''failed to get repository root item with a status ''
                             @ quote @ Status resp @ quote))"
  using assms
  by (auto simp: getRootItem_def client_Do_def Let_def
        split: sum.splits prod.splits if_splits list.splits)

text \<open>
  Claim C3 is that status 401 (or 203) gives \<open>ErrAuthenticationFailure\<close> whatever the
  endpoint. Only \<open>listRemote\<close> maps the status: on a remote that answers
  \<^verbatim>\<open>401 Unauthorized\<close>, \<open>latestCommitID\<close> (through \<open>getRootItem\<close>), the tree request of
  \<open>listTree\<close> and \<open>download\<close> return the error that only quotes the status line, while
  \<open>listRemote\<close> on the same remote returns \<open>ErrAuthenticationFailure\<close>.
\<close>

theorem status_401_outside_listRemote:
  "fst (latestCommitID (fixture 0 401 ''401 Unauthorized'') (NewAzureDownloader True) world0
          (sampleFetch ''refs/heads/main'' []))
     = Inl (Errorf (''failed to get repository root item with a status '' @ quote
                     @ ''401 Unauthorized'' @ quote))
   \<and> fst (listTree (fixture 2 401 ''401 Unauthorized'') (NewAzureDownloader True) world0
          (sampleFetch ''refs/heads/main'' []))
     = Inl (Errorf (''failed to list tree url with a status '' @ quote
                     @ ''401 Unauthorized'' @ quote))
   \<and> fst (download (fixture 0 401 ''401 Unauthorized'') (NewAzureDownloader True) world0
          ''/dest'' (sampleClone ''refs/heads/main''))
     = Some (Wrap (Errorf (''failed to download zip with a status '' @ quote
                            @ ''401 Unauthorized'' @ quote))
               ''failed to download a zip file from Azure DevOps'')
   \<and> fst (listRemote (fixture 0 401 ''401 Unauthorized'') (NewAzureDownloader True) world0
          (sampleClone ''refs/heads/main''))
     = Inl ErrAuthenticationFailure"
  by (simp add: latestCommitID_def listTree_def listRemote_def getRootItem_def download_def
        downloadZipFromAzureDevOps_def fixture_defs model_defs)

subsection \<open>The temporary file of a download\<close>

lemma downloadZip_error_keeps_file:
  assumes "parseUrl env (clone_repositoryUrl options) = Inr config"
      and "buildDownloadUrl env a config (clone_referenceName options) = Inr url"
      and "ioutil_TempFile env (files w) = Inr zipFile"
      and "downloadZipFromAzureDevOps env a w options = (Inl e, w')"
  shows "files w' zipFile \<noteq> None"
  using assms
  by (auto simp: downloadZipFromAzureDevOps_def client_Do_def Let_def
        split: sum.splits prod.splits if_splits option.splits)

lemma download_error_keeps_file:
  assumes "parseUrl env (clone_repositoryUrl options) = Inr config"
      and "buildDownloadUrl env a config (clone_referenceName options) = Inr url"
      and "ioutil_TempFile env (files w) = Inr zipFile"
      and "downloadZipFromAzureDevOps env a w options = (Inl e, w1)"
  shows "download env a w destination options =
           (Some (if panic e then e
                  else Wrap e ''failed to download a zip file from Azure DevOps''), w1)
         \<and> files w1 zipFile \<noteq> None"
  using downloadZip_error_keeps_file [OF assms] assms(4) by (simp add: download_def)

lemma download_removes_file:
  assumes "downloadZipFromAzureDevOps env a w options = (Inr zipFilepath, w1)"
      and "download env a w destination options = (res, w')"
  shows "files w' zipFilepath = None"
  using assms by (auto simp: download_def Let_def split: option.splits)

text \<open>
  Claim C2 is that the temporary file is deleted on every exit path of \<open>download\<close>. On a
  remote that answers \<^verbatim>\<open>500 Internal Server Error\<close> the file, absent before the call, is
  there after \<open>download\<close> has returned its error; it is removed when the download succeeds.
\<close>

theorem download_failure_leaves_temp_file:
  "files world0 ''/tmp/azure-git-repo-1.zip'' = None
   \<and> fst (download (fixture 0 500 ''500 Internal Server Error'') (NewAzureDownloader True)
            world0 ''/dest'' (sampleClone ''refs/heads/main''))
       = Some (Wrap (Errorf (''failed to download zip with a status '' @ quote
                              @ ''500 Internal Server Error'' @ quote))
                 ''failed to download a zip file from Azure DevOps'')
   \<and> files (snd (download (fixture 0 500 ''500 Internal Server Error'') (NewAzureDownloader True)
            world0 ''/dest'' (sampleClone ''refs/heads/main''))) ''/tmp/azure-git-repo-1.zip''
       = Some []
   \<and> fst (download (fixture 1 500 ''500 Internal Server Error'') (NewAzureDownloader True)
            world0 ''/dest'' (sampleClone ''refs/heads/main'')) = None
   \<and> files (snd (download (fixture 1 500 ''500 Internal Server Error'') (NewAzureDownloader True)
            world0 ''/dest'' (sampleClone ''refs/heads/main''))) ''/tmp/azure-git-repo-1.zip''
       = None"
  by (simp add: download_def downloadZipFromAzureDevOps_def fixture_defs model_defs)

subsection \<open>The claims on the test double\<close>

lemma fixture_parseUrl:
  "parseUrl (fixture n code text) sampleUrl =
     Inr \<lparr>organisation = ''org'', project = ''proj'', repository = ''repo'',
          username = ''org'', password = []\<rparr>"
  by (simp add: fixture_defs model_defs)

lemma fixture_listRemote_404:
  "listRemote (fixture 0 404 ''404 Not Found'') (NewAzureDownloader True) world0 (sampleClone []) =
     (Inl ErrIncorrectRepositoryURL, NewAzureDownloader True,
      world0\<lparr>exchanges :=
        [(refsRequest, Inr \<lparr>StatusCode = 404, Status = ''404 Not Found'', Body = ''refs''\<rparr>)]\<rparr>)"
  by (simp add: listRemote_def fixture_defs model_defs)


lemma fixture_getRootItem_ok:
  "getRootItem (fixture 3 code text) (a\<lparr>baseUrl := ''https://dev.azure.com''\<rparr>)
     (world0\<lparr>exchanges := [(refsRequest, ok ''refs'')]\<rparr>) (sampleFetch ''refs/heads/main'' exts) =
     (Inr \<lparr>ObjectID = ''7ree'', CommitId = ''c0ffee'', item_Path = ''/''\<rparr>,
      world0\<lparr>exchanges := [(refsRequest, ok ''refs''), (itemsRequest, ok ''items'')]\<rparr>)"
  by (simp add: getRootItem_def fixture_defs model_defs)

lemma fixture_listTree_ok:
  "listTree (fixture 3 code text) (NewAzureDownloader True) world0
     (sampleFetch ''refs/heads/main'' [''.yml'']) =
     (Inr [''docker-compose.yml'', ''stacks/app.yml''], sampleCached,
      world0\<lparr>exchanges := sampleExchanges\<rparr>)"
  by (simp add: listTree_def listRemote_def getRootItem_def fixture_defs model_defs)

theorem listRemote_status_errors_witness:
  "fst (listRemote (fixture 0 404 ''404 Not Found'') (NewAzureDownloader True) world0 (sampleClone []))
     = Inl ErrIncorrectRepositoryURL
   \<and> fst (snd (listRemote (fixture 0 404 ''404 Not Found'') (NewAzureDownloader True) world0
                 (sampleClone []))) = NewAzureDownloader True"
proof -
  note t = listRemote_status_errors [OF fixture_listRemote_404, THEN conjunct2, rule_format,
      of refsRequest "\<lparr>StatusCode = 404, Status = ''404 Not Found'', Body = ''refs''\<rparr>"]
  have "exchanges (world0\<lparr>exchanges :=
        [(refsRequest, Inr \<lparr>StatusCode = 404, Status = ''404 Not Found'', Body = ''refs''\<rparr>)]\<rparr>)
      = exchanges world0 @ [(refsRequest, Inr \<lparr>StatusCode = 404, Status = ''404 Not Found'', Body = ''refs''\<rparr>)]"
    by (simp add: world0_def)
  from t [OF this] show ?thesis
    by (simp add: fixture_listRemote_404)
qed

theorem listTree_cached_idempotent_witness:
  "listTree (fixture 3 503 ''503 Service Unavailable'') sampleCached
     (world0\<lparr>exchanges := sampleExchanges\<rparr>) (sampleFetch ''refs/heads/main'' [''.yml''])
   = (Inr [''docker-compose.yml'', ''stacks/app.yml''], sampleCached,
      world0\<lparr>exchanges := sampleExchanges\<rparr>)
   \<and> listTree (fixture 3 503 ''503 Service Unavailable'') sampleCached
     (world0\<lparr>exchanges := sampleExchanges\<rparr>) (sampleFetch ''refs/heads/main'' [''.md''])
   = (Inr [''README.md''], sampleCached, world0\<lparr>exchanges := sampleExchanges\<rparr>)"
proof -
  have e: "cacheEnabled (NewAzureDownloader True)" by (simp add: NewAzureDownloader_def)
  note t = listTree_cached_idempotent [OF e fixture_listTree_ok,
      of 503 "''503 Service Unavailable''" "world0\<lparr>exchanges := sampleExchanges\<rparr>"]
  have k: "repoTreeCache sampleCached
             (generateCacheKey (fixture 3 503 ''503 Service Unavailable'')
                (fetch_repositoryUrl (sampleFetch ''refs/heads/main'' [''.yml'']))
                (fetch_referenceName (sampleFetch ''refs/heads/main'' [''.yml''])))
           = Some [''docker-compose.yml'', ''README.md'', ''stacks/app.yml'']"
    by (simp add: sampleCached_def fixture_def sampleFetch_def)
  have o: "(sampleFetch ''refs/heads/main'' [''.yml''])\<lparr>extensions := [''.md'']\<rparr>
             = sampleFetch ''refs/heads/main'' [''.md'']"
    by (simp add: sampleFetch_def)
  from t k have "listTree (fixture 3 503 ''503 Service Unavailable'') sampleCached
     (world0\<lparr>exchanges := sampleExchanges\<rparr>)
     ((sampleFetch ''refs/heads/main'' [''.yml''])\<lparr>extensions := [''.md'']\<rparr>)
     = (Inr (filter (\<lambda>path. matchExtensions (fixture 3 503 ''503 Service Unavailable'') path [''.md''])
               [''docker-compose.yml'', ''README.md'', ''stacks/app.yml'']),
        sampleCached, world0\<lparr>exchanges := sampleExchanges\<rparr>)"
    by auto
  then have "listTree (fixture 3 503 ''503 Service Unavailable'') sampleCached
     (world0\<lparr>exchanges := sampleExchanges\<rparr>) (sampleFetch ''refs/heads/main'' [''.md''])
     = (Inr [''README.md''], sampleCached, world0\<lparr>exchanges := sampleExchanges\<rparr>)"
    by (simp add: o fixture_def fixture_matchExtensions_def HasSuffix_def)
  with t show ?thesis by simp
qed


lemma fixture_listTree_alice:
  "exchanges (snd (snd (listTree (fixture 3 503 ''503 Service Unavailable'')
       (NewAzureDownloader True) world0
       \<lparr>fetch_repositoryUrl = sampleUrl, fetch_username = ''alice'',
        fetch_password = ''s3cret'', fetch_referenceName = ''refs/heads/main'',
        extensions = []\<rparr>))) =
     [(refsRequest\<lparr>req_auth := Some (''alice'', ''s3cret'')\<rparr>, ok ''refs''),
      (itemsRequest\<lparr>req_auth := Some (''alice'', ''s3cret'')\<rparr>, ok ''items''),
      (treeRequest\<lparr>req_auth := Some (''alice'', ''s3cret'')\<rparr>, ok ''tree'')]"
  by (simp add: listTree_def listRemote_def getRootItem_def fixture_defs model_defs)

theorem basic_auth_precedence_witness:
  "list_all (\<lambda>x. req_auth (fst x) = Some (''alice'', ''s3cret''))
     (exchanges (snd (snd (listTree (fixture 3 503 ''503 Service Unavailable'')
       (NewAzureDownloader True) world0
       \<lparr>fetch_repositoryUrl = sampleUrl, fetch_username = ''alice'',
        fetch_password = ''s3cret'', fetch_referenceName = ''refs/heads/main'',
        extensions = []\<rparr>))))
   \<and> length (exchanges (snd (snd (listTree (fixture 3 503 ''503 Service Unavailable'')
       (NewAzureDownloader True) world0
       \<lparr>fetch_repositoryUrl = sampleUrl, fetch_username = ''alice'',
        fetch_password = ''s3cret'', fetch_referenceName = ''refs/heads/main'',
        extensions = []\<rparr>)))) = 3
   \<and> basicAuth [] [] \<lparr>organisation = ''org'', project = ''proj'', repository = ''repo'',
          username = ''org'', password = []\<rparr> = Some (''org'', [])"
proof -
  let ?env = "fixture 3 503 ''503 Service Unavailable''"
  let ?o = "\<lparr>fetch_repositoryUrl = sampleUrl, fetch_username = ''alice'',
        fetch_password = ''s3cret'', fetch_referenceName = ''refs/heads/main'',
        extensions = []\<rparr>"
  let ?config = "\<lparr>organisation = ''org'', project = ''proj'', repository = ''repo'',
          username = ''org'', password = []\<rparr>"
  note t = basic_auth_precedence [OF fixture_parseUrl [of 3 503 "''503 Service Unavailable''"],
      of "''alice''" "''s3cret''"]
  obtain res a' w' where r: "listTree ?env (NewAzureDownloader True) world0 ?o = (res, a', w')"
    by (metis prod_cases3)
  from t r have "\<exists>new. exchanges w' = exchanges world0 @ new
       \<and> list_all (\<lambda>x. req_auth (fst x) = basicAuth ''alice'' ''s3cret'' ?config) new"
    by blast
  moreover from t have "basicAuth ''alice'' ''s3cret'' ?config = Some (''alice'', ''s3cret'')"
    by simp
  ultimately have "list_all (\<lambda>x. req_auth (fst x) = Some (''alice'', ''s3cret'')) (exchanges w')"
    by (auto simp: world0_def)
  moreover from basic_auth_precedence
      [OF fixture_parseUrl [of 3 503 "''503 Service Unavailable''"], of "[]" "[]"]
  have "basicAuth [] [] ?config = Some (''org'', [])"
    by simp
  ultimately show ?thesis
    using r fixture_listTree_alice by simp
qed

lemma fixture_refetch:
  "listTree (fixture 3 503 ''503 Service Unavailable'')
     (removeCache (fixture 3 503 ''503 Service Unavailable'') sampleCached
        (sampleClone ''refs/heads/main''))
     world0 (sampleFetch ''refs/heads/main'' []) =
   (Inr [''docker-compose.yml'', ''README.md'', ''stacks/app.yml''], sampleCached,
    world0\<lparr>exchanges := sampleExchanges\<rparr>)"
  by (simp add: removeCache_def listTree_def listRemote_def getRootItem_def fixture_defs model_defs)

theorem removeCache_invalidates_witness:
  "repoRefCache (removeCache (fixture 3 503 ''503 Service Unavailable'') sampleCached
        (sampleClone ''refs/heads/main'')) sampleUrl = None
   \<and> repoTreeCache (removeCache (fixture 3 503 ''503 Service Unavailable'') sampleCached
        (sampleClone ''refs/heads/main'')) (sampleUrl @ ''-refs/heads/main'') = None
   \<and> (\<exists>rest. exchanges (snd (snd (listTree (fixture 3 503 ''503 Service Unavailable'')
          (removeCache (fixture 3 503 ''503 Service Unavailable'') sampleCached
             (sampleClone ''refs/heads/main''))
          world0 (sampleFetch ''refs/heads/main'' [])))) = (refsRequest, ok ''refs'') # rest)
   \<and> listTree (fixture 3 503 ''503 Service Unavailable'')
          (removeCache (fixture 3 503 ''503 Service Unavailable'') sampleCached
             (sampleClone ''refs/heads/main''))
          world0 (sampleFetch ''refs/heads/main'' []) =
       (Inr [''docker-compose.yml'', ''README.md'', ''stacks/app.yml''], sampleCached,
        world0\<lparr>exchanges := sampleExchanges\<rparr>)"
proof -
  let ?env = "fixture 3 503 ''503 Service Unavailable''"
  let ?opt = "sampleClone ''refs/heads/main''"
  let ?o = "sampleFetch ''refs/heads/main'' []"
  let ?config = "\<lparr>organisation = ''org'', project = ''proj'', repository = ''repo'',
          username = ''org'', password = []\<rparr>"
  note t = removeCache_invalidates [of ?env sampleCached ?opt]
  have h: "fetch_repositoryUrl ?o = clone_repositoryUrl ?opt
         \<and> fetch_referenceName ?o = clone_referenceName ?opt
         \<and> parseUrl ?env (clone_repositoryUrl ?opt) = Inr ?config
         \<and> buildRefsUrl ?env sampleCached ?config = Inr (req_url refsRequest)
         \<and> http_NewRequest ?env (req_url refsRequest) = None
         \<and> listTree ?env (removeCache ?env sampleCached ?opt) world0 ?o =
             (Inr [''docker-compose.yml'', ''README.md'', ''stacks/app.yml''], sampleCached,
              world0\<lparr>exchanges := sampleExchanges\<rparr>)"
    using fixture_parseUrl [of 3 503 "''503 Service Unavailable''"] fixture_refetch
    by (simp add: fixture_defs model_defs)
  from t have
    "repoRefCache (removeCache ?env sampleCached ?opt) (clone_repositoryUrl ?opt) = None"
    "repoTreeCache (removeCache ?env sampleCached ?opt)
       (generateCacheKey ?env (clone_repositoryUrl ?opt) (clone_referenceName ?opt)) = None"
    by simp_all
  then have m: "repoRefCache (removeCache ?env sampleCached ?opt) sampleUrl = None"
    "repoTreeCache (removeCache ?env sampleCached ?opt) (sampleUrl @ ''-refs/heads/main'') = None"
    by (simp_all add: sampleClone_def fixture_def)
  from t [THEN conjunct2, THEN conjunct2, THEN conjunct2, THEN conjunct2, THEN conjunct1,
      rule_format, OF h]
  have "\<exists>rest. exchanges (world0\<lparr>exchanges := sampleExchanges\<rparr>) = (refsRequest, ok ''refs'') # rest"
    by (simp add: fixture_defs basicAuth_def)
  with m show ?thesis by (simp add: fixture_refetch)
qed

end
